theory Spec2Isabelle
  imports Complex_Main
begin

section \<open>The thumbnail pipeline of the S3 / Lambda / SNS project\<close>

text \<open>
  The repository holds two variants of the Lambda entry point \<^verbatim>\<open>lambda_handler\<close>:
  \<^item> \<^verbatim>\<open>docs/lambda-function.py\<close>, the two-tier handler (a \<^verbatim>\<open>try\<close> around every record and
    a \<^verbatim>\<open>try\<close> around the whole invocation), with colour-mode normalisation and
    directory-independent destination keys; its model keeps the source's names;
  \<^item> \<^verbatim>\<open>lamcode.py\<close>, the reduced single-tier handler; the names of its model carry the
    prefix \<open>lamcode_\<close>.

  Both call the same collaborators: the S3 client, the SNS client, the Pillow image
  library and \<^verbatim>\<open>os.path\<close>.  The S3 and SNS calls and the codec steps of Pillow are
  parameters of the model (the record \<open>env\<close>); \<^verbatim>\<open>os.path.splitext\<close>,
  \<^verbatim>\<open>os.path.basename\<close>, the pixel operations the normalisation step uses and the size
  that \<^verbatim>\<open>Image.thumbnail\<close> computes are written out.  Calls to the logger (with \<^verbatim>\<open>json.dumps(event)\<close>, which accepts every decoded
  event) and the readings of the clock (\<^verbatim>\<open>datetime.now()\<close>) have no influence on
  control flow and are left out, and so are the timestamps in messages and responses;
  the \<^verbatim>\<open>context\<close> argument is never read.
\<close>

subsection \<open>Event data and exceptions\<close>

text \<open>
  The event is the value the platform decoded from JSON.  \<open>JNum\<close> stands for every JSON
  number: none of the operations below distinguishes integers from fractions.  A
  dictionary is an association list read with \<^const>\<open>map_of\<close>.
\<close>

datatype json =
    JNull
  | JBool bool
  | JNum int
  | JStr string
  | JList "json list"
  | JDict "(string \<times> json) list"

text \<open>
  Exceptions as values.  \<open>KeyError k\<close> is raised by a subscript with a missing key,
  \<open>TypeError t\<close> and \<open>AttributeError t\<close> by an operation that an object of Python
  type \<open>t\<close> does not support, and \<open>Raised name text\<close> is any exception a collaborator
  raises (a botocore \<^verbatim>\<open>ClientError\<close>, Pillow's \<^verbatim>\<open>UnidentifiedImageError\<close>, an
  \<^verbatim>\<open>OSError\<close>, ...).
\<close>

datatype exn =
    KeyError string
  | TypeError string
  | AttributeError string
  | Raised string string

fun type_name :: "json \<Rightarrow> string" where
  "type_name JNull = ''NoneType''"
| "type_name (JBool b) = ''bool''"
| "type_name (JNum n) = ''int''"
| "type_name (JStr s) = ''str''"
| "type_name (JList xs) = ''list''"
| "type_name (JDict kvs) = ''dict''"

text \<open>\<^verbatim>\<open>v[k]\<close> with a string key \<open>k\<close>.\<close>

fun getitem :: "json \<Rightarrow> string \<Rightarrow> exn + json" where
  "getitem (JDict kvs) k = (case map_of kvs k of Some v \<Rightarrow> Inr v | None \<Rightarrow> Inl (KeyError k))"
| "getitem v k = Inl (TypeError (type_name v))"

text \<open>\<^verbatim>\<open>v.get(k, dflt)\<close>: only a dictionary has the method.\<close>

fun get :: "json \<Rightarrow> string \<Rightarrow> json \<Rightarrow> exn + json" where
  "get (JDict kvs) k dflt = Inr (case map_of kvs k of Some v \<Rightarrow> v | None \<Rightarrow> dflt)"
| "get v k dflt = Inl (AttributeError (type_name v))"

text \<open>
  \<^verbatim>\<open>for record in v\<close>: a list yields its elements, a string its characters, a dictionary
  its keys; nothing else is iterable.
\<close>

fun iter :: "json \<Rightarrow> exn + json list" where
  "iter (JList xs) = Inr xs"
| "iter (JStr s) = Inr (map (\<lambda>c. JStr [c]) s)"
| "iter (JDict kvs) = Inr (map (\<lambda>kv. JStr (fst kv)) kvs)"
| "iter v = Inl (TypeError (type_name v))"

fun len :: "json \<Rightarrow> exn + nat" where
  "len (JList xs) = Inr (length xs)"
| "len (JStr s) = Inr (length s)"
| "len (JDict kvs) = Inr (length kvs)"
| "len v = Inl (TypeError (type_name v))"

text \<open>\<^verbatim>\<open>os.fspath\<close>, the first thing \<^verbatim>\<open>os.path.splitext\<close> does with its argument.\<close>

fun fspath :: "json \<Rightarrow> exn + string" where
  "fspath (JStr s) = Inr s"
| "fspath v = Inl (TypeError (type_name v))"

text \<open>\<^verbatim>\<open>record['s3']['bucket']['name']\<close>: subscripts from left to right.\<close>

fun getitem_path :: "json \<Rightarrow> string list \<Rightarrow> exn + json" where
  "getitem_path v [] = Inr v"
| "getitem_path v (k # ks) =
     (case getitem v k of Inl e \<Rightarrow> Inl e | Inr v' \<Rightarrow> getitem_path v' ks)"

text \<open>
  \<^verbatim>\<open>record.get('s3', {}).get('bucket', {}).get('name', 'Unknown')\<close>: every inner step
  defaults to the empty dictionary, the last one to \<open>dflt\<close>.
\<close>

fun get_path :: "json \<Rightarrow> string list \<Rightarrow> json \<Rightarrow> exn + json" where
  "get_path v [] dflt = Inr v"
| "get_path v [k] dflt = get v k dflt"
| "get_path v (k # ks) dflt =
     (case get v k (JDict []) of Inl e \<Rightarrow> Inl e | Inr v' \<Rightarrow> get_path v' ks dflt)"

subsection \<open>Destination keys: \<^verbatim>\<open>os.path.splitext\<close> and \<^verbatim>\<open>os.path.basename\<close>\<close>

text \<open>
  The handlers run on Linux, where \<^verbatim>\<open>os.path\<close> is \<^verbatim>\<open>posixpath\<close>: the separator is
  \<open>/\<close>, there is no alternative separator, the extension separator is the dot.
  \<open>rfind\<close> is \<^verbatim>\<open>str.rfind\<close> for a one-character needle: the highest index of the
  character, or \<open>-1\<close>.
\<close>

fun rfind :: "char \<Rightarrow> string \<Rightarrow> int" where
  "rfind c [] = - 1"
| "rfind c (x # xs) =
     (let r = rfind c xs in if 0 \<le> r then r + 1 else if x = c then 0 else - 1)"

text \<open>
  The loop of \<^verbatim>\<open>genericpath._splitext\<close> that skips leading dots of the file name:
  \<^verbatim>\<open>
  while filenameIndex < dotIndex:
      if p[filenameIndex:filenameIndex+1] != extsep:
          return p[:dotIndex], p[dotIndex:]
      filenameIndex += 1
  \<close>
  The function tells whether the loop leaves through its \<^verbatim>\<open>return\<close>.
\<close>

function skip_leading_dots :: "string \<Rightarrow> nat \<Rightarrow> nat \<Rightarrow> bool" where
  "skip_leading_dots p filenameIndex dotIndex =
     (if filenameIndex < dotIndex
      then (if take 1 (drop filenameIndex p) \<noteq> ''.'' then True
            else skip_leading_dots p (Suc filenameIndex) dotIndex)
      else False)"
  by pat_completeness auto
termination
  by (relation "measure (\<lambda>(p, filenameIndex, dotIndex). dotIndex - filenameIndex)") auto

declare skip_leading_dots.simps [simp del]

definition splitext :: "string \<Rightarrow> string \<times> string" where
  "splitext p =
     (let sepIndex = rfind (CHR ''/'') p;
          dotIndex = rfind (CHR ''.'') p
      in if sepIndex < dotIndex \<and> skip_leading_dots p (nat (sepIndex + 1)) (nat dotIndex)
         then (take (nat dotIndex) p, drop (nat dotIndex) p)
         else (p, []))"

definition basename :: "string \<Rightarrow> string" where
  "basename p = drop (nat (rfind (CHR ''/'') p + 1)) p"

text \<open>
  \<^verbatim>\<open>docs/lambda-function.py\<close>, lines 87-88:
  \<^verbatim>\<open>
  filename_without_ext = os.path.splitext(object_key)[0]
  thumbnail_key = f"thumbnails/{os.path.basename(filename_without_ext)}_thumb.jpg"
  \<close>
\<close>

definition thumbnail_key :: "string \<Rightarrow> string" where
  "thumbnail_key object_key =
     (let filename_without_ext = fst (splitext object_key)
      in ''thumbnails/'' @ basename filename_without_ext @ ''_thumb.jpg'')"

text \<open>
  \<^verbatim>\<open>lamcode.py\<close>, line 34:
  \<^verbatim>\<open>thumbnail_key = f"thumbnails/{os.path.splitext(key)[0]}_thumb.jpg"\<close>
\<close>

definition lamcode_thumbnail_key :: "string \<Rightarrow> string" where
  "lamcode_thumbnail_key key = ''thumbnails/'' @ fst (splitext key) @ ''_thumb.jpg''"

subsection \<open>Images and the colour-mode normalisation\<close>

text \<open>
  An image as far as the handler looks at it: Pillow's \<^verbatim>\<open>mode\<close>, \<^verbatim>\<open>size\<close> and
  \<^verbatim>\<open>format\<close> attributes and the pixels in row order.  A pixel is given by the colour
  and the opacity its stored bands denote, each from 0 to 255: \<open>(r, g, b, a)\<close>.  For
  mode \<open>LA\<close> the three colour values are the grey level, for mode \<open>P\<close> colour and
  opacity are those of the palette entry, and a mode without alpha has \<open>a = 255\<close>.
\<close>

type_synonym bytes = "nat list"

type_synonym pixel = "nat \<times> nat \<times> nat \<times> nat"

record image =
  im_mode :: string
  im_size :: "nat \<times> nat"
  im_format :: "string option"
  im_pixels :: "pixel list"

text \<open>\<^verbatim>\<open>Image.new(mode, size, color)\<close>: every pixel has the given colour.\<close>

definition Image_new :: "string \<Rightarrow> nat \<times> nat \<Rightarrow> nat \<times> nat \<times> nat \<Rightarrow> image" where
  "Image_new mode sz color =
     \<lparr>im_mode = mode, im_size = sz, im_format = None,
      im_pixels = replicate (fst sz * snd sz)
                    (fst color, fst (snd color), snd (snd color), 255)\<rparr>"

text \<open>
  \<^verbatim>\<open>image.convert('RGBA')\<close> of a palette image: the same colours and opacities, stored
  as four bands.
\<close>

definition convert_RGBA :: "image \<Rightarrow> image" where
  "convert_RGBA img = img\<lparr>im_mode := ''RGBA'', im_format := None\<rparr>"

text \<open>\<^verbatim>\<open>image.split()[-1]\<close> of an \<open>RGBA\<close> image: its alpha band.\<close>

definition split_last :: "image \<Rightarrow> nat list" where
  "split_last img = map (\<lambda>(r, g, b, a). a) (im_pixels img)"

text \<open>
  Pillow's \<^verbatim>\<open>Image.paste(im, mask=...)\<close> onto an \<open>RGB\<close> image of the same size.  With a
  mask, every colour value becomes the blend \<^verbatim>\<open>BLEND8(mask, out, in)\<close> of the old value
  and the pasted one, in Pillow's integer arithmetic.  Without a mask the pasted
  colour replaces the old one, whatever the opacity of the pasted pixel.
\<close>

definition DIV255 :: "nat \<Rightarrow> nat" where
  "DIV255 a = (let tmp = a + 128 in (tmp div 256 + tmp) div 256)"

definition BLEND8 :: "nat \<Rightarrow> nat \<Rightarrow> nat \<Rightarrow> nat" where
  "BLEND8 msk in1 in2 = DIV255 (in1 * (255 - msk) + in2 * msk)"

fun paste_pixel :: "pixel \<Rightarrow> pixel \<Rightarrow> nat option \<Rightarrow> pixel" where
  "paste_pixel (r0, g0, b0, a0) (r, g, b, a) None = (r, g, b, a0)"
| "paste_pixel (r0, g0, b0, a0) (r, g, b, a) (Some m) =
     (BLEND8 m r0 r, BLEND8 m g0 g, BLEND8 m b0 b, a0)"

definition paste :: "image \<Rightarrow> image \<Rightarrow> nat list option \<Rightarrow> image" where
  "paste background img msk =
     background\<lparr>im_pixels :=
       (case msk of
          None \<Rightarrow>
            map2 (\<lambda>out inp. paste_pixel out inp None) (im_pixels background) (im_pixels img)
        | Some ms \<Rightarrow>
            map2 (\<lambda>out (inp, m). paste_pixel out inp (Some m))
              (im_pixels background) (zip (im_pixels img) ms))\<rparr>"

text \<open>
  \<^verbatim>\<open>docs/lambda-function.py\<close>, lines 67-73:
  \<^verbatim>\<open>
  if image.mode in ('RGBA', 'LA', 'P'):
      background = Image.new('RGB', image.size, (255, 255, 255))
      if image.mode == 'P':
          image = image.convert('RGBA')
      background.paste(image, mask=image.split()[-1] if image.mode == 'RGBA' else None)
      image = background
  \<close>
  \<^verbatim>\<open>lamcode.py\<close> has no such step.
\<close>

definition convert_for_jpeg :: "image \<Rightarrow> image" where
  "convert_for_jpeg img =
     (if im_mode img \<in> {''RGBA'', ''LA'', ''P''}
      then let background = Image_new ''RGB'' (im_size img) (255, 255, 255);
               img' = (if im_mode img = ''P'' then convert_RGBA img else img)
           in paste background img'
                (if im_mode img' = ''RGBA'' then Some (split_last img') else None)
      else img)"

definition well_formed :: "image \<Rightarrow> bool" where
  "well_formed img \<longleftrightarrow> length (im_pixels img) = fst (im_size img) * snd (im_size img)"

subsection \<open>The size of a thumbnail\<close>




subsection \<open>Collaborators, notifications and responses\<close>

datatype subject =
    ThumbnailGenerated string
  | ErrorProcessingImage json
  | CriticalError
  | GeneratedSuccessfully
  | ImageProcessingError

text \<open>
  The message templates with the values they embed.
  \<^item> \<open>SuccessMessage object_key bucket_name original_bytes format thumbnail_key thumbnail_bytes\<close>
  \<^item> \<open>ErrorMessage record_error bucket key\<close>
  \<^item> \<open>CriticalMessage main_error\<close>
  \<^item> \<open>CompleteMessage key bucket thumbnail_key\<close> and \<open>ErrorText e\<close> are the two
    messages of \<^verbatim>\<open>lamcode.py\<close>.

  The text that \<^verbatim>\<open>thumbnail_size_text\<close> makes of the buffer size (bytes, KB or MB
  with two decimals) is a function of \<open>thumbnail_bytes\<close> and cannot raise; the message
  carries the number.
\<close>

datatype message =
    SuccessMessage string json nat "string option" string nat
  | ErrorMessage exn json json
  | CriticalMessage exn
  | CompleteMessage string json string
  | ErrorText exn

text \<open>
  One constructor per call to a network collaborator, with the arguments passed:
  \<open>GetObject Bucket Key\<close>, \<open>PutObject Bucket Key Body ContentType Metadata\<close>,
  \<open>Publish TopicArn Subject Message\<close>.
\<close>

datatype call =
    GetObject json json
  | PutObject "string option" string bytes string "(string \<times> json) list"
  | Publish "string option" subject message

text \<open>
  The world outside the handler.  The two environment variables are \<open>None\<close> when
  unset.  A network collaborator answers a call in view of all the calls made before
  it, so a service may fail at one moment and work at the next; the codec steps
  (\<^verbatim>\<open>Image.open\<close> together with the decoding it defers, \<^verbatim>\<open>Image.thumbnail\<close>,
  \<^verbatim>\<open>Image.save\<close>) depend on their arguments alone.  \<open>image_save quality optimize\<close>
  writes a JPEG.
\<close>

record env =
  THUMBNAIL_BUCKET :: "string option"
  SNS_TOPIC_ARN :: "string option"
  s3_get_object :: "call list \<Rightarrow> call \<Rightarrow> exn + bytes"
  s3_put_object :: "call list \<Rightarrow> call \<Rightarrow> exn option"
  sns_publish :: "call list \<Rightarrow> call \<Rightarrow> exn option"
  image_open :: "bytes \<Rightarrow> exn + image"
  image_thumbnail :: "nat \<times> nat \<Rightarrow> image \<Rightarrow> exn + image"
  image_save :: "nat \<Rightarrow> bool \<Rightarrow> image \<Rightarrow> exn + bytes"

text \<open>
  The body of a response is the value handed to \<^verbatim>\<open>json.dumps\<close>:
  \<^item> \<open>Completed n\<close>: the dictionary with \<^verbatim>\<open>records_processed\<close> \<open>= n\<close> (status 200);
  \<^item> \<open>Failed e\<close>: the dictionary with \<^verbatim>\<open>error\<close> and \<^verbatim>\<open>message = str(e)\<close> (status 500);
  \<^item> \<open>Generated\<close> and \<open>FailedText e\<close>: the two strings \<^verbatim>\<open>lamcode.py\<close> returns.
\<close>

datatype body =
    Completed nat
  | Failed exn
  | Generated
  | FailedText exn

record response =
  statusCode :: nat
  body :: body

subsection \<open>Statements that may raise\<close>

text \<open>
  A statement runs on the list of collaborator calls made so far (oldest first) and
  either returns a value (\<open>Inr\<close>) or raises (\<open>Inl\<close>); it leaves the extended list.
\<close>

type_synonym 'a action = "call list \<Rightarrow> (exn + 'a) \<times> call list"

definition returnE :: "'a \<Rightarrow> 'a action" where
  "returnE x = (\<lambda>s. (Inr x, s))"

definition lift :: "exn + 'a \<Rightarrow> 'a action" where
  "lift r = (\<lambda>s. (r, s))"

definition bindE :: "'a action \<Rightarrow> ('a \<Rightarrow> 'b action) \<Rightarrow> 'b action" where
  "bindE m f = (\<lambda>s. case m s of (Inl e, s') \<Rightarrow> (Inl e, s') | (Inr x, s') \<Rightarrow> f x s')"

text \<open>\<^verbatim>\<open>try: m except Exception as e: h e\<close>\<close>

definition try_except :: "'a action \<Rightarrow> (exn \<Rightarrow> 'a action) \<Rightarrow> 'a action" where
  "try_except m h = (\<lambda>s. case m s of (Inl e, s') \<Rightarrow> h e s' | (Inr x, s') \<Rightarrow> (Inr x, s'))"

definition get_object :: "env \<Rightarrow> json \<Rightarrow> json \<Rightarrow> bytes action" where
  "get_object env Bucket Key =
     (\<lambda>s. (s3_get_object env s (GetObject Bucket Key), s @ [GetObject Bucket Key]))"

definition put_object ::
  "env \<Rightarrow> string option \<Rightarrow> string \<Rightarrow> bytes \<Rightarrow> string \<Rightarrow> (string \<times> json) list \<Rightarrow> unit action" where
  "put_object env Bucket Key Body ContentType Metadata =
     (\<lambda>s. ((case s3_put_object env s (PutObject Bucket Key Body ContentType Metadata) of
               None \<Rightarrow> Inr () | Some e \<Rightarrow> Inl e),
            s @ [PutObject Bucket Key Body ContentType Metadata]))"

definition publish :: "env \<Rightarrow> subject \<Rightarrow> message \<Rightarrow> unit action" where
  "publish env Subject Message =
     (\<lambda>s. ((case sns_publish env s (Publish (SNS_TOPIC_ARN env) Subject Message) of
               None \<Rightarrow> Inr () | Some e \<Rightarrow> Inl e),
            s @ [Publish (SNS_TOPIC_ARN env) Subject Message]))"

definition THUMBNAIL_SIZE :: "nat \<times> nat" where
  "THUMBNAIL_SIZE = (200, 200)"

definition THUMBNAIL_QUALITY :: nat where
  "THUMBNAIL_QUALITY = 80"

subsection \<open>The handler of \<^verbatim>\<open>docs/lambda-function.py\<close>\<close>

text \<open>
  What the handler knows about a record once its thumbnail is stored: \<^verbatim>\<open>bucket_name\<close>,
  \<^verbatim>\<open>object_key\<close>, \<^verbatim>\<open>len(image_data)\<close>, \<^verbatim>\<open>image.format\<close> and the length of the
  thumbnail buffer.
\<close>

record stored =
  bucket_name :: json
  object_key :: string
  original_bytes :: nat
  original_format :: "string option"
  thumbnail_bytes :: nat

text \<open>
  Lines 48-106, the body of the inner \<^verbatim>\<open>try\<close> up to the upload: read bucket and key
  from the record, fetch the object, open the image, normalise its colour mode, make
  the thumbnail, encode it as JPEG (quality 80, optimised), derive the destination
  key, upload.  \<^verbatim>\<open>Image.thumbnail\<close> works in place and keeps the \<^verbatim>\<open>format\<close> attribute.
\<close>

definition generate_thumbnail :: "env \<Rightarrow> json \<Rightarrow> stored action" where
  "generate_thumbnail env record =
     bindE (lift (getitem_path record [''s3'', ''bucket'', ''name''])) (\<lambda>bucket.
     bindE (lift (getitem_path record [''s3'', ''object'', ''key''])) (\<lambda>key.
     bindE (get_object env bucket key) (\<lambda>image_data.
     bindE (lift (image_open env image_data)) (\<lambda>img.
     bindE (lift (image_thumbnail env THUMBNAIL_SIZE (convert_for_jpeg img))) (\<lambda>thumb.
     bindE (lift (image_save env THUMBNAIL_QUALITY True thumb)) (\<lambda>thumbnail_buffer.
     bindE (lift (fspath key)) (\<lambda>key_str.
     bindE (put_object env (THUMBNAIL_BUCKET env) (thumbnail_key key_str) thumbnail_buffer
              ''image/jpeg''
              [(''original-image'', key), (''source-bucket'', bucket),
               (''generated-by'', JStr ''Lambda-ThumbnailGenerator'')]) (\<lambda>_.
     returnE \<lparr>bucket_name = bucket, object_key = key_str,
              original_bytes = length image_data,
              original_format = im_format (convert_for_jpeg img),
              thumbnail_bytes = length thumbnail_buffer\<rparr>))))))))"

text \<open>Lines 108-140: the success notification.\<close>

definition success_subject :: "stored \<Rightarrow> subject" where
  "success_subject t = ThumbnailGenerated (basename (object_key t))"

definition success_message :: "stored \<Rightarrow> message" where
  "success_message t =
     SuccessMessage (object_key t) (bucket_name t) (original_bytes t) (original_format t)
       (thumbnail_key (object_key t)) (thumbnail_bytes t)"

text \<open>Lines 48-142: the whole body of the inner \<^verbatim>\<open>try\<close>.\<close>

definition process_image :: "env \<Rightarrow> json \<Rightarrow> unit action" where
  "process_image env record =
     bindE (generate_thumbnail env record)
       (\<lambda>t. publish env (success_subject t) (success_message t))"

text \<open>
  Lines 144-179, the handler of the inner \<^verbatim>\<open>try\<close>: build the error message, which
  reads bucket and key from the record with \<^verbatim>\<open>.get\<close>, and publish it.  Nothing guards
  these statements, so what they raise leaves the loop.
\<close>

definition notify_record_error :: "env \<Rightarrow> json \<Rightarrow> exn \<Rightarrow> unit action" where
  "notify_record_error env record record_error =
     bindE (lift (get_path record [''s3'', ''bucket'', ''name''] (JStr ''Unknown''))) (\<lambda>bucket.
     bindE (lift (get_path record [''s3'', ''object'', ''key''] (JStr ''Unknown''))) (\<lambda>key.
     publish env (ErrorProcessingImage key) (ErrorMessage record_error bucket key)))"

text \<open>Lines 46-179: the loop over the records.\<close>

fun process_records :: "env \<Rightarrow> json list \<Rightarrow> unit action" where
  "process_records env [] = returnE ()"
| "process_records env (record # records) =
     bindE (try_except (process_image env record) (notify_record_error env record))
       (\<lambda>_. process_records env records)"

text \<open>
  Lines 41-238.  The outer \<^verbatim>\<open>try\<close> holds the loop and the success response; its
  handler publishes the critical message inside a \<^verbatim>\<open>try\<close> of its own and returns the
  error response.
\<close>

definition lambda_handler :: "env \<Rightarrow> json \<Rightarrow> response action" where
  "lambda_handler env event =
     try_except
       (bindE (lift (get event ''Records'' (JList []))) (\<lambda>Records.
        bindE (lift (iter Records)) (\<lambda>records.
        bindE (process_records env records) (\<lambda>_.
        bindE (lift (len Records)) (\<lambda>records_processed.
        returnE \<lparr>statusCode = 200, body = Completed records_processed\<rparr>)))))
       (\<lambda>main_error.
          bindE (try_except (publish env CriticalError (CriticalMessage main_error))
                   (\<lambda>sns_error. returnE ()))
            (\<lambda>_. returnE \<lparr>statusCode = 500, body = Failed main_error\<rparr>))"

subsection \<open>The handler of \<^verbatim>\<open>lamcode.py\<close>\<close>

text \<open>
  Lines 20-51, the loop body: no colour-mode step, no metadata on the upload, the
  JPEG is not optimised, and nothing catches an exception here.
\<close>

definition lamcode_process_image :: "env \<Rightarrow> json \<Rightarrow> unit action" where
  "lamcode_process_image env record =
     bindE (lift (getitem_path record [''s3'', ''bucket'', ''name''])) (\<lambda>bucket.
     bindE (lift (getitem_path record [''s3'', ''object'', ''key''])) (\<lambda>key.
     bindE (get_object env bucket key) (\<lambda>image_data.
     bindE (lift (image_open env image_data)) (\<lambda>img.
     bindE (lift (image_thumbnail env THUMBNAIL_SIZE img)) (\<lambda>thumb.
     bindE (lift (image_save env 80 False thumb)) (\<lambda>thumbnail_buffer.
     bindE (lift (fspath key)) (\<lambda>key_str.
     bindE (put_object env (THUMBNAIL_BUCKET env) (lamcode_thumbnail_key key_str)
              thumbnail_buffer ''image/jpeg'' []) (\<lambda>_.
     publish env GeneratedSuccessfully
       (CompleteMessage key_str bucket (lamcode_thumbnail_key key_str))))))))))"

fun lamcode_process_records :: "env \<Rightarrow> json list \<Rightarrow> unit action" where
  "lamcode_process_records env [] = returnE ()"
| "lamcode_process_records env (record # records) =
     bindE (lamcode_process_image env record) (\<lambda>_. lamcode_process_records env records)"

text \<open>
  Lines 17-61.  One \<^verbatim>\<open>try\<close> around everything; its handler publishes the error
  without a guard.
\<close>

definition lamcode_lambda_handler :: "env \<Rightarrow> json \<Rightarrow> response action" where
  "lamcode_lambda_handler env event =
     try_except
       (bindE (lift (getitem event ''Records'')) (\<lambda>Records.
        bindE (lift (iter Records)) (\<lambda>records.
        bindE (lamcode_process_records env records) (\<lambda>_.
        returnE \<lparr>statusCode = 200, body = Generated\<rparr>))))
       (\<lambda>e. bindE (publish env ImageProcessingError (ErrorText e))
                (\<lambda>_. returnE \<lparr>statusCode = 500, body = FailedText e\<rparr>))"

subsection \<open>Sample events and worlds\<close>

text \<open>A record as S3 delivers it, and a batch of two.\<close>

definition s3_record :: "string \<Rightarrow> string \<Rightarrow> json" where
  "s3_record bucket key =
     JDict [(''s3'', JDict [(''bucket'', JDict [(''name'', JStr bucket)]),
                            (''object'', JDict [(''key'', JStr key)])])]"

definition two_records :: json where
  "two_records =
     JDict [(''Records'', JList [s3_record ''uploads'' ''missing.png'',
                                 s3_record ''uploads'' ''source/photo.png''])]"

definition one_record :: json where
  "one_record = JDict [(''Records'', JList [s3_record ''uploads'' ''source/photo.png''])]"

definition sample_image :: image where
  "sample_image =
     \<lparr>im_mode = ''RGB'', im_size = (1, 1), im_format = Some ''PNG'',
      im_pixels = [(10, 20, 30, 255)]\<rparr>"

text \<open>
  A world where everything works, except that the object \<^verbatim>\<open>missing.png\<close> is not in
  the bucket.
\<close>

definition env_ok :: env where
  "env_ok =
     \<lparr>THUMBNAIL_BUCKET = Some ''thumbs'', SNS_TOPIC_ARN = Some ''arn:aws:sns:topic'',
      s3_get_object = (\<lambda>h c. if c = GetObject (JStr ''uploads'') (JStr ''missing.png'')
                              then Inl (Raised ''NoSuchKey'' ''not found'') else Inr [1, 2, 3]),
      s3_put_object = (\<lambda>h c. None),
      sns_publish = (\<lambda>h c. None),
      image_open = (\<lambda>b. Inr sample_image),
      image_thumbnail = (\<lambda>sz img. Inr img),
      image_save = (\<lambda>q opt img. Inr [9, 9])\<rparr>"

text \<open>The same world with SNS rejecting every publish.\<close>

definition env_sns_down :: env where
  "env_sns_down =
     env_ok\<lparr>sns_publish := (\<lambda>h c. Some (Raised ''ClientError'' ''topic not found''))\<rparr>"

text \<open>The same world with SNS rejecting the success notifications only.\<close>

definition env_success_rejected :: env where
  "env_success_rejected =
     env_ok\<lparr>sns_publish :=
       (\<lambda>h c. case c of
                 Publish arn (ThumbnailGenerated n) m \<Rightarrow> Some (Raised ''ClientError'' ''invalid'')
               | _ \<Rightarrow> None)\<rparr>"

text \<open>
  A one-pixel greyscale image with alpha (PNG colour type 4, Pillow mode \<open>LA\<close>) whose
  pixel is black and fully transparent, and the same pixel in an \<open>RGBA\<close> image.
\<close>

definition transparent_LA :: image where
  "transparent_LA =
     \<lparr>im_mode = ''LA'', im_size = (1, 1), im_format = Some ''PNG'',
      im_pixels = [(0, 0, 0, 0)]\<rparr>"

definition transparent_RGBA :: image where
  "transparent_RGBA =
     \<lparr>im_mode = ''RGBA'', im_size = (1, 1), im_format = Some ''PNG'',
      im_pixels = [(0, 0, 0, 0)]\<rparr>"


section \<open>Properties\<close>

subsection \<open>Statements in sequence\<close>

lemma bindE_lift_Inr [simp]: "bindE (lift (Inr x)) f s = f x s"
  by (simp add: bindE_def lift_def)

lemma bindE_lift_Inl [simp]: "bindE (lift (Inl e)) f s = (Inl e, s)"
  by (simp add: bindE_def lift_def)

lemma bindE_returnE [simp]: "bindE (returnE x) f s = f x s"
  by (simp add: bindE_def returnE_def)

lemma bindE_Inr: "m s = (Inr x, s') \<Longrightarrow> bindE m f s = f x s'"
  by (simp add: bindE_def)

lemma bindE_Inl: "m s = (Inl e, s') \<Longrightarrow> bindE m f s = (Inl e, s')"
  by (simp add: bindE_def)

lemma try_except_Inr: "m s = (Inr x, s') \<Longrightarrow> try_except m h s = (Inr x, s')"
  by (simp add: try_except_def)

lemma try_except_Inl: "m s = (Inl e, s') \<Longrightarrow> try_except m h s = h e s'"
  by (simp add: try_except_def)

lemma iter_len: "iter v = Inr xs \<Longrightarrow> len v = Inr (length xs)"
  by (cases v) auto

lemma publish_None:
  "sns_publish env s (Publish (SNS_TOPIC_ARN env) subj msg) = None \<Longrightarrow>
   publish env subj msg s = (Inr (), s @ [Publish (SNS_TOPIC_ARN env) subj msg])"
  by (simp add: publish_def)

lemma publish_Some:
  "sns_publish env s (Publish (SNS_TOPIC_ARN env) subj msg) = Some e \<Longrightarrow>
   publish env subj msg s = (Inl e, s @ [Publish (SNS_TOPIC_ARN env) subj msg])"
  by (simp add: publish_def)

text \<open>
  The publish of lines 221-228 sits in a \<^verbatim>\<open>try\<close> whose handler only logs, so the
  statement returns whatever SNS answers.
\<close>

lemma guarded_publish:
  "try_except (publish env subj msg) (\<lambda>sns_error. returnE ()) s
     = (Inr (), s @ [Publish (SNS_TOPIC_ARN env) subj msg])"
  by (simp add: try_except_def publish_def returnE_def split: option.splits)

lemma critical_handler:
  "bindE (try_except (publish env CriticalError (CriticalMessage e)) (\<lambda>sns_error. returnE ()))
     (\<lambda>_. returnE \<lparr>statusCode = 500, body = Failed e\<rparr>) s
   = (Inr \<lparr>statusCode = 500, body = Failed e\<rparr>,
      s @ [Publish (SNS_TOPIC_ARN env) CriticalError (CriticalMessage e)])"
  by (simp add: bindE_def try_except_def publish_def returnE_def split: option.splits)

subsection \<open>The runs of the two handlers\<close>

text \<open>
  The four ways through \<open>lambda_handler\<close>: \<^verbatim>\<open>event.get\<close> raises, the value under
  \<^verbatim>\<open>Records\<close> is not iterable, the loop raises, the loop completes.
\<close>

lemma lambda_handler_cases:
  "lambda_handler env event s =
     (case get event ''Records'' (JList []) of
        Inl e \<Rightarrow> (Inr \<lparr>statusCode = 500, body = Failed e\<rparr>,
                  s @ [Publish (SNS_TOPIC_ARN env) CriticalError (CriticalMessage e)])
      | Inr Records \<Rightarrow>
         (case iter Records of
            Inl e \<Rightarrow> (Inr \<lparr>statusCode = 500, body = Failed e\<rparr>,
                      s @ [Publish (SNS_TOPIC_ARN env) CriticalError (CriticalMessage e)])
          | Inr records \<Rightarrow>
             (case process_records env records s of
                (Inl e, s') \<Rightarrow> (Inr \<lparr>statusCode = 500, body = Failed e\<rparr>,
                      s' @ [Publish (SNS_TOPIC_ARN env) CriticalError (CriticalMessage e)])
              | (Inr u, s') \<Rightarrow> (Inr \<lparr>statusCode = 200, body = Completed (length records)\<rparr>, s'))))"
  by (auto simp: lambda_handler_def try_except_def bindE_def lift_def returnE_def publish_def
        dest: iter_len split: sum.splits prod.splits option.splits)

text \<open>One turn of the loop.\<close>

lemma process_records_Cons:
  "process_records env (record # records) s =
     (case process_image env record s of
        (Inr u, s') \<Rightarrow> process_records env records s'
      | (Inl e, s') \<Rightarrow>
          (case notify_record_error env record e s' of
             (Inr u, s'') \<Rightarrow> process_records env records s''
           | (Inl e', s'') \<Rightarrow> (Inl e', s'')))"
  by (simp add: bindE_def try_except_def split: prod.splits sum.splits)

text \<open>
  \<open>lamcode_lambda_handler\<close>: whatever the body raises goes to the handler, whose own
  publish may raise in turn.
\<close>

lemma lamcode_handler_cases:
  "lamcode_lambda_handler env event s =
     (case (case getitem event ''Records'' of
              Inl e \<Rightarrow> (Inl e, s)
            | Inr Records \<Rightarrow>
                (case iter Records of
                   Inl e \<Rightarrow> (Inl e, s)
                 | Inr records \<Rightarrow> lamcode_process_records env records s)) of
        (Inr u, s') \<Rightarrow> (Inr \<lparr>statusCode = 200, body = Generated\<rparr>, s')
      | (Inl e, s') \<Rightarrow>
          (case sns_publish env s' (Publish (SNS_TOPIC_ARN env) ImageProcessingError (ErrorText e)) of
             None \<Rightarrow> (Inr \<lparr>statusCode = 500, body = FailedText e\<rparr>,
                       s' @ [Publish (SNS_TOPIC_ARN env) ImageProcessingError (ErrorText e)])
           | Some e' \<Rightarrow> (Inl e',
                       s' @ [Publish (SNS_TOPIC_ARN env) ImageProcessingError (ErrorText e)])))"
  by (auto simp: lamcode_lambda_handler_def try_except_def bindE_def lift_def returnE_def
        publish_def split: sum.splits prod.splits option.splits)

text \<open>
  Whatever ends the body of the outer \<^verbatim>\<open>try\<close> of \<open>lambda_handler\<close>, the response
  is the error response for it and the last call is the publish of the critical
  message; nothing is assumed about the answer of SNS to that publish.
\<close>

lemma fatal_response:
  assumes "get event ''Records'' (JList []) = Inl main_error \<or>
           (\<exists>Records. get event ''Records'' (JList []) = Inr Records \<and>
              (iter Records = Inl main_error \<or>
               (\<exists>records. iter Records = Inr records \<and>
                  fst (process_records env records s) = Inl main_error)))"
  shows "fst (lambda_handler env event s) = Inr \<lparr>statusCode = 500, body = Failed main_error\<rparr> \<and>
         last (snd (lambda_handler env event s))
           = Publish (SNS_TOPIC_ARN env) CriticalError (CriticalMessage main_error)"
  using assms
  by (auto simp: lambda_handler_cases split: prod.splits sum.splits)

text \<open>In \<^verbatim>\<open>lamcode.py\<close> a record that raises ends the loop.\<close>

lemma lamcode_process_records_Cons:
  "lamcode_process_image env record s = (Inl e, s') \<Longrightarrow>
   lamcode_process_records env (record # records) s = (Inl e, s')"
  by (simp add: bindE_def)

lemma lamcode_error_publish_raises:
  assumes "getitem event ''Records'' = Inr Records" and "iter Records = Inr records"
    and "lamcode_process_records env records s = (Inl e, s')"
    and "sns_publish env s' (Publish (SNS_TOPIC_ARN env) ImageProcessingError (ErrorText e)) = Some e'"
  shows "lamcode_lambda_handler env event s
           = (Inl e', s' @ [Publish (SNS_TOPIC_ARN env) ImageProcessingError (ErrorText e)])"
  using assms by (simp add: lamcode_handler_cases)

subsection \<open>Facts about \<open>rfind\<close>, \<open>splitext\<close> and \<open>basename\<close>\<close>

lemma rfind_ge: "- 1 \<le> rfind c s"
  by (induction s) (auto simp: Let_def)

lemma rfind_lt: "rfind c s < int (length s)"
  by (induction s) (auto simp: Let_def)

lemma rfind_notin: "c \<notin> set s \<Longrightarrow> rfind c s = - 1"
  by (induction s) (auto simp: Let_def)

lemma rfind_in: "c \<in> set s \<Longrightarrow> 0 \<le> rfind c s"
  using rfind_ge [of c] by (induction s) (auto simp: Let_def)

lemma rfind_append:
  "rfind c (xs @ ys) = (if c \<in> set ys then int (length xs) + rfind c ys else rfind c xs)"
proof (induction xs)
  case Nil
  then show ?case by (simp add: rfind_notin)
next
  case (Cons x xs)
  then show ?case
    using rfind_in [of c ys] rfind_ge [of c xs] by (auto simp: Let_def)
qed

lemma skip_leading_dots_shift:
  "skip_leading_dots (xs @ ys) (length xs + i) (length xs + j) = skip_leading_dots ys i j"
proof (induction ys i j rule: skip_leading_dots.induct)
  case (1 p i j)
  show ?case
    using "1.IH"
    by (subst skip_leading_dots.simps, subst (2) skip_leading_dots.simps) auto
qed

lemma skip_leading_dots_iff:
  "j \<le> length p \<Longrightarrow>
   skip_leading_dots p i j \<longleftrightarrow> (\<exists>k. i \<le> k \<and> k < j \<and> p ! k \<noteq> CHR ''.'')"
proof (induction p i j rule: skip_leading_dots.induct)
  case (1 p i j)
  show ?case
  proof (cases "i < j")
    case False
    then show ?thesis by (subst skip_leading_dots.simps) auto
  next
    case True
    then have hd: "take 1 (drop i p) = [p ! i]"
      using "1.prems" by (simp add: take_Suc_conv_app_nth Cons_nth_drop_Suc [symmetric])
    show ?thesis
    proof (cases "p ! i = CHR ''.''")
      case False
      with True hd show ?thesis by (subst skip_leading_dots.simps) auto
    next
      case dot: True
      have "skip_leading_dots p i j = skip_leading_dots p (Suc i) j"
        using True hd dot by (subst skip_leading_dots.simps) simp
      also have "\<dots> \<longleftrightarrow> (\<exists>k. Suc i \<le> k \<and> k < j \<and> p ! k \<noteq> CHR ''.'')"
        using "1.IH" True hd dot "1.prems" by simp
      also have "\<dots> \<longleftrightarrow> (\<exists>k. i \<le> k \<and> k < j \<and> p ! k \<noteq> CHR ''.'')"
        using dot by (metis Suc_leD Suc_leI le_neq_implies_less)
      finally show ?thesis .
    qed
  qed
qed

lemma basename_no_sep: "CHR ''/'' \<notin> set n \<Longrightarrow> basename n = n"
  by (simp add: basename_def rfind_notin)

lemma basename_dir: "CHR ''/'' \<notin> set n \<Longrightarrow> basename (d @ CHR ''/'' # n) = n"
proof -
  assume n: "CHR ''/'' \<notin> set n"
  have "nat (int (length d) + 1) = Suc (length d)" by simp
  then show ?thesis
    using n by (simp add: basename_def rfind_append rfind_notin)
qed

lemma rfind_dot_dir:
  "CHR ''.'' \<notin> set n \<Longrightarrow> rfind (CHR ''.'') (d @ CHR ''/'' # n) < int (length d)"
  using rfind_lt [of "CHR ''.''" d] rfind_append [of "CHR ''.''" d "CHR ''/'' # n"]
  by simp

lemma splitext_dir:
  assumes "CHR ''/'' \<notin> set n"
  shows "splitext (d @ CHR ''/'' # n) = (d @ CHR ''/'' # fst (splitext n), snd (splitext n))"
proof (cases "CHR ''.'' \<in> set n")
  case False
  then show ?thesis
    using assms rfind_dot_dir [of n d]
    by (simp add: splitext_def rfind_append rfind_notin)
next
  case True
  define r where "r = nat (rfind (CHR ''.'') n)"
  have r: "rfind (CHR ''.'') n = int r"
    using rfind_in [OF True] by (simp add: r_def)
  have sep: "rfind (CHR ''/'') (d @ CHR ''/'' # n) = int (length d)"
    using assms by (simp add: rfind_append rfind_notin)
  have dot: "rfind (CHR ''.'') (d @ CHR ''/'' # n) = int (length d + 1 + r)"
    using True r rfind_append [of "CHR ''.''" "d @ ''/''" n] by simp
  have scan: "skip_leading_dots (d @ CHR ''/'' # n) (length d + 1) (length d + 1 + r)
                = skip_leading_dots n 0 r"
    using skip_leading_dots_shift [of "d @ ''/''" n 0 r] by simp
  have sepn: "rfind (CHR ''/'') n = - 1"
    using assms by (simp add: rfind_notin)
  show ?thesis
    unfolding splitext_def Let_def sep dot sepn r
    using scan by (simp add: nat_add_distrib)
qed

lemma fst_splitext_no_sep: "CHR ''/'' \<notin> set n \<Longrightarrow> CHR ''/'' \<notin> set (fst (splitext n))"
  by (auto simp: splitext_def Let_def dest: in_set_takeD)

lemma last_sep_split:
  "CHR ''/'' \<in> set k \<Longrightarrow> \<exists>d n. k = d @ CHR ''/'' # n \<and> CHR ''/'' \<notin> set n"
  by (metis split_list_last)

lemma basename_splitext_commute: "basename (fst (splitext k)) = fst (splitext (basename k))"
proof (cases "CHR ''/'' \<in> set k")
  case False
  then show ?thesis
    by (simp add: basename_no_sep fst_splitext_no_sep)
next
  case True
  then obtain d n where k: "k = d @ CHR ''/'' # n" and n: "CHR ''/'' \<notin> set n"
    using last_sep_split by blast
  show ?thesis
    unfolding k using n by (simp add: splitext_dir basename_dir fst_splitext_no_sep)
qed

lemma splitext_ext:
  assumes "CHR ''/'' \<notin> set base" and "\<exists>c \<in> set base. c \<noteq> CHR ''.''"
    and "CHR ''.'' \<notin> set ext" and "CHR ''/'' \<notin> set ext"
  shows "splitext (base @ CHR ''.'' # ext) = (base, CHR ''.'' # ext)"
proof -
  have sep: "rfind (CHR ''/'') (base @ CHR ''.'' # ext) = - 1"
    using assms by (simp add: rfind_notin)
  have dot: "rfind (CHR ''.'') (base @ CHR ''.'' # ext) = int (length base)"
    using assms by (simp add: rfind_append rfind_notin)
  obtain k where k: "k < length base" "base ! k \<noteq> CHR ''.''"
    using assms(2) by (auto simp: in_set_conv_nth)
  then have "\<exists>k'. 0 \<le> k' \<and> k' < length base \<and> (base @ CHR ''.'' # ext) ! k' \<noteq> CHR ''.''"
    by (auto simp: nth_append intro!: exI [of _ k])
  then have scan: "skip_leading_dots (base @ CHR ''.'' # ext) 0 (length base)"
    by (subst skip_leading_dots_iff) auto
  show ?thesis
    unfolding splitext_def Let_def sep dot using scan by simp
qed

lemma splitext_leading_dot:
  assumes "CHR ''.'' \<notin> set ext" and "CHR ''/'' \<notin> set ext"
  shows "splitext (CHR ''.'' # ext) = (CHR ''.'' # ext, [])"
proof -
  have "rfind (CHR ''.'') (CHR ''.'' # ext) = 0"
    using assms by (simp add: rfind_notin)
  moreover have "\<not> skip_leading_dots (CHR ''.'' # ext) 0 0"
    by (subst skip_leading_dots.simps) simp
  ultimately show ?thesis
    using assms by (simp add: splitext_def rfind_notin)
qed

lemma thumbnail_key_base:
  "thumbnail_key k = ''thumbnails/'' @ fst (splitext (basename k)) @ ''_thumb.jpg''"
  by (simp add: thumbnail_key_def basename_splitext_commute)

lemma thumbnail_key_dir:
  "CHR ''/'' \<notin> set n \<Longrightarrow> thumbnail_key (d @ ''/'' @ n) = thumbnail_key n"
  by (simp add: thumbnail_key_base basename_dir basename_no_sep)

lemma thumbnail_key_ext:
  "CHR ''/'' \<notin> set base \<Longrightarrow> \<exists>c \<in> set base. c \<noteq> CHR ''.'' \<Longrightarrow>
   CHR ''.'' \<notin> set ext \<Longrightarrow> CHR ''/'' \<notin> set ext \<Longrightarrow>
   thumbnail_key (d @ ''/'' @ base @ ''.'' @ ext) = ''thumbnails/'' @ base @ ''_thumb.jpg''"
  using splitext_ext [of base ext]
  by (simp add: thumbnail_key_base basename_dir)

lemma thumbnail_key_photo: "thumbnail_key ''source/photo.png'' = ''thumbnails/photo_thumb.jpg''"
  using thumbnail_key_ext [of "''photo''" "''png''" "''source''"] by simp

lemma lamcode_splitext_dir_ext:
  assumes "CHR ''/'' \<notin> set base" and "\<exists>c \<in> set base. c \<noteq> CHR ''.''"
    and "CHR ''.'' \<notin> set ext" and "CHR ''/'' \<notin> set ext"
  shows "lamcode_thumbnail_key (d @ ''/'' @ base @ ''.'' @ ext)
           = ''thumbnails/'' @ d @ ''/'' @ base @ ''_thumb.jpg''"
  using splitext_dir [of "base @ CHR ''.'' # ext" d] splitext_ext [OF assms] assms
  by (simp add: lamcode_thumbnail_key_def)

subsection \<open>Facts about thumbnail sizes\<close>












subsection \<open>Runs in the sample worlds\<close>

lemmas run_defs =
  process_image_def generate_thumbnail_def notify_record_error_def publish_def
  get_object_def put_object_def bindE_def try_except_def lift_def returnE_def
  success_subject_def success_message_def s3_record_def

lemmas world_defs = env_ok_def env_sns_down_def env_success_rejected_def sample_image_def

lemmas lamcode_run_defs =
  lamcode_process_image_def publish_def get_object_def put_object_def bindE_def
  lift_def returnE_def s3_record_def

lemma two_records_sns_down:
  "fst (process_records env_sns_down
     [s3_record ''uploads'' ''missing.png'', s3_record ''uploads'' ''source/photo.png''] [])
   = Inl (Raised ''ClientError'' ''topic not found'')"
  by (simp add: run_defs world_defs)

lemma lamcode_photo_sns_down:
  "lamcode_process_image env_sns_down (s3_record ''uploads'' ''source/photo.png'') []
     = (Inl (Raised ''ClientError'' ''topic not found''),
        [GetObject (JStr ''uploads'') (JStr ''source/photo.png''),
         PutObject (Some ''thumbs'') ''thumbnails/source/photo_thumb.jpg'' [9, 9] ''image/jpeg'' [],
         Publish (Some ''arn:aws:sns:topic'') GeneratedSuccessfully
           (CompleteMessage ''source/photo.png'' (JStr ''uploads'')
              ''thumbnails/source/photo_thumb.jpg'')])"
  using lamcode_splitext_dir_ext [of "''photo''" "''png''" "''source''"]
  by (simp add: lamcode_run_defs world_defs THUMBNAIL_SIZE_def)

lemma two_records_completed:
  "fst (process_records env_ok
     [s3_record ''uploads'' ''missing.png'', s3_record ''uploads'' ''source/photo.png''] [])
   = Inr ()"
  by (simp add: run_defs world_defs)

lemma missing_object_fails:
  "fst (process_image env_ok (s3_record ''uploads'' ''missing.png'') [])
     = Inl (Raised ''NoSuchKey'' ''not found'')"
  by (simp add: run_defs world_defs)

lemma generate_thumbnail_photo:
  "generate_thumbnail env_success_rejected (s3_record ''uploads'' ''source/photo.png'') []
     = (Inr \<lparr>bucket_name = JStr ''uploads'', object_key = ''source/photo.png'',
              original_bytes = 3, original_format = Some ''PNG'', thumbnail_bytes = 2\<rparr>,
        [GetObject (JStr ''uploads'') (JStr ''source/photo.png''),
         PutObject (Some ''thumbs'') ''thumbnails/photo_thumb.jpg'' [9, 9] ''image/jpeg''
           [(''original-image'', JStr ''source/photo.png''),
            (''source-bucket'', JStr ''uploads''),
            (''generated-by'', JStr ''Lambda-ThumbnailGenerator'')]])"
  using thumbnail_key_photo
  by (simp add: run_defs world_defs convert_for_jpeg_def THUMBNAIL_SIZE_def THUMBNAIL_QUALITY_def)

subsection \<open>A record whose success notification is rejected\<close>

text \<open>
  Once \<open>generate_thumbnail\<close> has returned, the record has a bucket name and a key that
  is a string, so the \<^verbatim>\<open>.get\<close> chains of the error message find them.
\<close>

lemma getitem_path3_get_path:
  "getitem_path v [a, b, c] = Inr x \<Longrightarrow> get_path v [a, b, c] d = Inr x"
  by (cases v) (auto split: option.splits sum.splits json.splits elim!: getitem.elims)

lemma generate_thumbnail_context:
  assumes "generate_thumbnail env record s = (Inr t, s1)"
  shows "get_path record [''s3'', ''bucket'', ''name''] (JStr ''Unknown'') = Inr (bucket_name t)"
    and "get_path record [''s3'', ''object'', ''key''] (JStr ''Unknown'') = Inr (JStr (object_key t))"
proof -
  obtain bucket where b: "getitem_path record [''s3'', ''bucket'', ''name''] = Inr bucket"
    using assms by (cases "getitem_path record [''s3'', ''bucket'', ''name'']")
      (simp_all add: generate_thumbnail_def)
  obtain key where k: "getitem_path record [''s3'', ''object'', ''key''] = Inr key"
    using assms b by (cases "getitem_path record [''s3'', ''object'', ''key'']")
      (simp_all add: generate_thumbnail_def)
  from assms b k have "bucket_name t = bucket \<and> fspath key = Inr (object_key t)"
    by (auto simp: generate_thumbnail_def bindE_def lift_def returnE_def get_object_def
          put_object_def split: sum.splits prod.splits option.splits)
  then have "bucket_name t = bucket" and "key = JStr (object_key t)"
    by (auto elim: fspath.elims)
  then show "get_path record [''s3'', ''bucket'', ''name''] (JStr ''Unknown'') = Inr (bucket_name t)"
    and "get_path record [''s3'', ''object'', ''key''] (JStr ''Unknown'') = Inr (JStr (object_key t))"
    using b k by (simp_all only: getitem_path3_get_path)
qed

lemma notify_record_error_published:
  assumes "get_path record [''s3'', ''bucket'', ''name''] (JStr ''Unknown'') = Inr bucket"
    and "get_path record [''s3'', ''object'', ''key''] (JStr ''Unknown'') = Inr key"
    and "sns_publish env s
           (Publish (SNS_TOPIC_ARN env) (ErrorProcessingImage key) (ErrorMessage e bucket key)) = None"
  shows "notify_record_error env record e s
           = (Inr (), s @ [Publish (SNS_TOPIC_ARN env) (ErrorProcessingImage key)
                             (ErrorMessage e bucket key)])"
  using assms by (simp add: notify_record_error_def publish_def del: get_path.simps)

lemma rejected_success_publish:
  assumes g: "generate_thumbnail env record s = (Inr t, s1)"
    and p: "sns_publish env s1
              (Publish (SNS_TOPIC_ARN env) (success_subject t) (success_message t)) = Some e"
    and q: "sns_publish env
              (s1 @ [Publish (SNS_TOPIC_ARN env) (success_subject t) (success_message t)])
              (Publish (SNS_TOPIC_ARN env) (ErrorProcessingImage (JStr (object_key t)))
                 (ErrorMessage e (bucket_name t) (JStr (object_key t)))) = None"
  shows "process_records env (record # records) s
           = process_records env records
               (s1 @ [Publish (SNS_TOPIC_ARN env) (success_subject t) (success_message t),
                      Publish (SNS_TOPIC_ARN env) (ErrorProcessingImage (JStr (object_key t)))
                        (ErrorMessage e (bucket_name t) (JStr (object_key t)))])"
proof -
  have pi: "process_image env record s
              = (Inl e, s1 @ [Publish (SNS_TOPIC_ARN env) (success_subject t) (success_message t)])"
    using g p by (simp add: process_image_def bindE_def publish_def)
  have ne: "notify_record_error env record e
              (s1 @ [Publish (SNS_TOPIC_ARN env) (success_subject t) (success_message t)])
            = (Inr (), (s1 @ [Publish (SNS_TOPIC_ARN env) (success_subject t) (success_message t)])
                 @ [Publish (SNS_TOPIC_ARN env) (ErrorProcessingImage (JStr (object_key t)))
                        (ErrorMessage e (bucket_name t) (JStr (object_key t)))])"
    by (rule notify_record_error_published [OF generate_thumbnail_context [OF g] q])
  show ?thesis
    by (simp only: process_records_Cons pi ne prod.case sum.case append_assoc append_Cons append_Nil)
qed

section \<open>The claims\<close>

subsection \<open>C1: a failed record and the rest of the batch\<close>

text \<open>
  Claim C1: when the processing of a record fails at a step of the pipeline, the handler
  turns the failure into a failure notification for that record and goes on to the
  records after it; one record's failure never aborts the batch.

  The handler of the inner \<^verbatim>\<open>try\<close> publishes the failure notification without a guard
  (lines 172-176), unlike the critical notification of lines 221-228.  In the world
  \<open>env_sns_down\<close> the first record of \<open>two_records\<close> fails at the fetch, the publish
  of its failure notification raises, the exception leaves the loop, and the second
  record is never fetched: the invocation ends with status 500.
\<close>

theorem batch_aborted_when_failure_publish_raises:
  "fst (lambda_handler env_sns_down two_records [])
     = Inr \<lparr>statusCode = 500, body = Failed (Raised ''ClientError'' ''topic not found'')\<rparr> \<and>
   GetObject (JStr ''uploads'') (JStr ''source/photo.png'')
     \<notin> set (snd (lambda_handler env_sns_down two_records []))"
  by (simp add: lambda_handler_cases two_records_def run_defs world_defs)

subsection \<open>C2: an event without \<^verbatim>\<open>Records\<close>\<close>

text \<open>
  Claim C2 as stated: for an event that lacks the \<^verbatim>\<open>Records\<close> field, the handler
  returns status 500 with a body that describes the fatal error and attempts exactly
  one fatal notification.  Line 46 reads \<^verbatim>\<open>event.get('Records', [])\<close>, so the empty
  dictionary is an empty batch: status 200 and no publish.
\<close>

theorem missing_Records_counterexample:
  "fst (lambda_handler env_ok (JDict []) []) = Inr \<lparr>statusCode = 200, body = Completed 0\<rparr> \<and>
   snd (lambda_handler env_ok (JDict []) []) = []"
  by (simp add: lambda_handler_cases returnE_def)

text \<open>
  Claim C2 as amended: an event dictionary without \<^verbatim>\<open>Records\<close> is treated by
  \<open>lambda_handler\<close> as an empty batch (status 200, \<^verbatim>\<open>records_processed\<close> 0, no
  collaborator call).  The status 500 with the fatal-error body and exactly one guarded
  publish of the critical message is what an event that is no dictionary gets.  The
  handler of \<^verbatim>\<open>lamcode.py\<close> subscripts the event: there the missing field raises
  \<^verbatim>\<open>KeyError\<close>, one error publish is made, and the response is 500 when that publish
  returns.
\<close>

theorem missing_Records:
  "(map_of kvs ''Records'' = None \<longrightarrow>
      lambda_handler env (JDict kvs) s = (Inr \<lparr>statusCode = 200, body = Completed 0\<rparr>, s)) \<and>
   ((\<forall>kvs. event \<noteq> JDict kvs) \<longrightarrow>
      lambda_handler env event s
        = (Inr \<lparr>statusCode = 500, body = Failed (AttributeError (type_name event))\<rparr>,
           s @ [Publish (SNS_TOPIC_ARN env) CriticalError
                  (CriticalMessage (AttributeError (type_name event)))])) \<and>
   (map_of kvs ''Records'' = None \<and>
    sns_publish env s
      (Publish (SNS_TOPIC_ARN env) ImageProcessingError (ErrorText (KeyError ''Records''))) = None
    \<longrightarrow>
      lamcode_lambda_handler env (JDict kvs) s
        = (Inr \<lparr>statusCode = 500, body = FailedText (KeyError ''Records'')\<rparr>,
           s @ [Publish (SNS_TOPIC_ARN env) ImageProcessingError
                  (ErrorText (KeyError ''Records''))]))"
proof (intro conjI impI)
  assume "map_of kvs ''Records'' = None"
  then show "lambda_handler env (JDict kvs) s
               = (Inr \<lparr>statusCode = 200, body = Completed 0\<rparr>, s)"
    by (simp add: lambda_handler_cases returnE_def)
next
  assume "\<forall>kvs. event \<noteq> JDict kvs"
  then have "get event ''Records'' (JList []) = Inl (AttributeError (type_name event))"
    by (cases event) auto
  then show "lambda_handler env event s
        = (Inr \<lparr>statusCode = 500, body = Failed (AttributeError (type_name event))\<rparr>,
           s @ [Publish (SNS_TOPIC_ARN env) CriticalError
                  (CriticalMessage (AttributeError (type_name event)))])"
    by (simp add: lambda_handler_cases)
next
  assume "map_of kvs ''Records'' = None \<and>
    sns_publish env s
      (Publish (SNS_TOPIC_ARN env) ImageProcessingError (ErrorText (KeyError ''Records''))) = None"
  then show "lamcode_lambda_handler env (JDict kvs) s
        = (Inr \<lparr>statusCode = 500, body = FailedText (KeyError ''Records'')\<rparr>,
           s @ [Publish (SNS_TOPIC_ARN env) ImageProcessingError
                  (ErrorText (KeyError ''Records''))])"
    by (simp add: lamcode_handler_cases)
qed

theorem missing_Records_witness:
  "map_of ([] :: (string \<times> json) list) ''Records'' = None \<and>
   (\<forall>kvs. JNull \<noteq> JDict kvs) \<and>
   sns_publish env_ok []
      (Publish (SNS_TOPIC_ARN env_ok) ImageProcessingError (ErrorText (KeyError ''Records''))) = None \<and>
   lambda_handler env_ok (JDict []) [] = (Inr \<lparr>statusCode = 200, body = Completed 0\<rparr>, []) \<and>
   lambda_handler env_ok JNull []
     = (Inr \<lparr>statusCode = 500, body = Failed (AttributeError ''NoneType'')\<rparr>,
        [Publish (Some ''arn:aws:sns:topic'') CriticalError
           (CriticalMessage (AttributeError ''NoneType''))]) \<and>
   lamcode_lambda_handler env_ok (JDict []) []
     = (Inr \<lparr>statusCode = 500, body = FailedText (KeyError ''Records'')\<rparr>,
        [Publish (Some ''arn:aws:sns:topic'') ImageProcessingError
           (ErrorText (KeyError ''Records''))])"
  using missing_Records [of "[]" env_ok "[]" JNull]
  by (simp add: env_ok_def)

subsection \<open>C3: the response after a completed iteration\<close>

text \<open>
  Claim C3: whenever the iteration over the records completes (nothing raises outside
  the per-record \<^verbatim>\<open>try\<close>), \<open>lambda_handler\<close> returns status 200 with
  \<^verbatim>\<open>records_processed\<close> equal to the number of records of the event, whether or not
  some of them failed.  The calls made are those of the loop and no other.
\<close>

theorem completed_iteration_reports_all_records:
  assumes "get event ''Records'' (JList []) = Inr Records"
    and "iter Records = Inr records"
    and "fst (process_records env records s) = Inr ()"
  shows "lambda_handler env event s
           = (Inr \<lparr>statusCode = 200, body = Completed (length records)\<rparr>,
              snd (process_records env records s))"
  using assms by (cases "process_records env records s") (simp add: lambda_handler_cases)

text \<open>
  In \<open>env_ok\<close> the first of the two records fails at the fetch, and the response still
  counts both.
\<close>

theorem completed_iteration_reports_all_records_witness:
  "get two_records ''Records'' (JList [])
     = Inr (JList [s3_record ''uploads'' ''missing.png'',
                   s3_record ''uploads'' ''source/photo.png'']) \<and>
   iter (JList [s3_record ''uploads'' ''missing.png'', s3_record ''uploads'' ''source/photo.png''])
     = Inr [s3_record ''uploads'' ''missing.png'', s3_record ''uploads'' ''source/photo.png''] \<and>
   fst (process_image env_ok (s3_record ''uploads'' ''missing.png'') [])
     = Inl (Raised ''NoSuchKey'' ''not found'') \<and>
   fst (process_records env_ok
          [s3_record ''uploads'' ''missing.png'', s3_record ''uploads'' ''source/photo.png''] [])
     = Inr () \<and>
   fst (lambda_handler env_ok two_records [])
     = Inr \<lparr>statusCode = 200, body = Completed 2\<rparr>"
proof -
  let ?rs = "[s3_record ''uploads'' ''missing.png'', s3_record ''uploads'' ''source/photo.png'']"
  have g: "get two_records ''Records'' (JList []) = Inr (JList ?rs)"
    by (simp add: two_records_def)
  have i: "iter (JList ?rs) = Inr ?rs" by simp
  have p: "fst (process_records env_ok ?rs []) = Inr ()" by (rule two_records_completed)
  show ?thesis
    using g i p missing_object_fails
      completed_iteration_reports_all_records [OF g i p]
    by simp
qed

subsection \<open>C4: the destination key\<close>

text \<open>
  Claim C4 as stated: the destination key strips the extension of the source key, keeps
  only its base name whatever the directory prefix, and is
  \<^verbatim>\<open>thumbnails/{baseNameNoExt}_thumb.jpg\<close>; \<^verbatim>\<open>source/photo.png\<close> maps to
  \<^verbatim>\<open>thumbnails/photo_thumb.jpg\<close>.  Line 34 of \<^verbatim>\<open>lamcode.py\<close>, which the claim cites
  too, has no \<^verbatim>\<open>os.path.basename\<close>: there the directory prefix stays in the key.
\<close>

theorem lamcode_key_counterexample:
  "lamcode_thumbnail_key ''source/photo.png'' = ''thumbnails/source/photo_thumb.jpg'' \<and>
   lamcode_thumbnail_key ''source/photo.png'' \<noteq> ''thumbnails/photo_thumb.jpg''"
  using lamcode_splitext_dir_ext [of "''photo''" "''png''" "''source''"]
  by simp

text \<open>
  Claim C4 as amended: in \<^verbatim>\<open>docs/lambda-function.py\<close> the destination key is
  \<^verbatim>\<open>thumbnails/{baseNameNoExt}_thumb.jpg\<close>, where the base name is the part of the key
  after its last \<open>/\<close> with the extension stripped, so the directory prefix has no
  influence and \<^verbatim>\<open>source/photo.png\<close> maps to \<^verbatim>\<open>thumbnails/photo_thumb.jpg\<close>.  In
  \<^verbatim>\<open>lamcode.py\<close> the extension is stripped and the directory prefix is kept:
  \<^verbatim>\<open>dir/base.ext\<close> maps to \<^verbatim>\<open>thumbnails/dir/base_thumb.jpg\<close> and \<^verbatim>\<open>source/photo.png\<close>
  to \<^verbatim>\<open>thumbnails/source/photo_thumb.jpg\<close>.

  The source of \<^verbatim>\<open>docs/lambda-function.py\<close> strips the extension first and takes the
  base name second; the first conjunct says that this is the base name with its
  extension stripped.  The third conjunct spells both keys out for a file name
  \<^verbatim>\<open>base.ext\<close> whose base is not made of dots alone.
\<close>

theorem thumbnail_key_derivation:
  "thumbnail_key k = ''thumbnails/'' @ fst (splitext (basename k)) @ ''_thumb.jpg'' \<and>
   (CHR ''/'' \<notin> set n \<longrightarrow> thumbnail_key (d @ ''/'' @ n) = thumbnail_key n) \<and>
   (CHR ''/'' \<notin> set base \<and> (\<exists>c \<in> set base. c \<noteq> CHR ''.'') \<and>
    CHR ''.'' \<notin> set ext \<and> CHR ''/'' \<notin> set ext \<longrightarrow>
      thumbnail_key (d @ ''/'' @ base @ ''.'' @ ext) = ''thumbnails/'' @ base @ ''_thumb.jpg'' \<and>
      lamcode_thumbnail_key (d @ ''/'' @ base @ ''.'' @ ext)
        = ''thumbnails/'' @ d @ ''/'' @ base @ ''_thumb.jpg'') \<and>
   thumbnail_key ''source/photo.png'' = ''thumbnails/photo_thumb.jpg'' \<and>
   lamcode_thumbnail_key ''source/photo.png'' = ''thumbnails/source/photo_thumb.jpg''"
  using thumbnail_key_base thumbnail_key_dir thumbnail_key_ext thumbnail_key_photo
    lamcode_splitext_dir_ext [of base ext d]
    lamcode_splitext_dir_ext [of "''photo''" "''png''" "''source''"]
  by simp

theorem thumbnail_key_derivation_witness:
  "CHR ''/'' \<notin> set ''photo.png'' \<and>
   CHR ''/'' \<notin> set ''photo'' \<and> (\<exists>c \<in> set ''photo''. c \<noteq> CHR ''.'') \<and>
   CHR ''.'' \<notin> set ''png'' \<and> CHR ''/'' \<notin> set ''png'' \<and>
   thumbnail_key (''uploads/2024'' @ ''/'' @ ''photo.png'') = thumbnail_key ''photo.png'' \<and>
   thumbnail_key (''uploads/2024'' @ ''/'' @ ''photo'' @ ''.'' @ ''png'')
     = ''thumbnails/'' @ ''photo'' @ ''_thumb.jpg'' \<and>
   lamcode_thumbnail_key (''uploads/2024'' @ ''/'' @ ''photo'' @ ''.'' @ ''png'')
     = ''thumbnails/'' @ ''uploads/2024'' @ ''/'' @ ''photo'' @ ''_thumb.jpg''"
proof -
  have n: "CHR ''/'' \<notin> set ''photo.png''" by simp
  have b: "CHR ''/'' \<notin> set ''photo'' \<and> (\<exists>c \<in> set ''photo''. c \<noteq> CHR ''.'') \<and>
           CHR ''.'' \<notin> set ''png'' \<and> CHR ''/'' \<notin> set ''png''" by simp
  show ?thesis
    using n b
      thumbnail_key_derivation [of "''a.png''" "''photo.png''" "''uploads/2024''" "''photo''" "''png''"]
    by blast
qed

subsection \<open>C5: a publish that fails\<close>

text \<open>
  Claim C5 as stated: a failure of a notification publish is logged and swallowed; it
  does not change the record's outcome, does not abort the remaining records and does
  not alter the final response.  The success publish (lines 136-140) is a statement of
  the inner \<^verbatim>\<open>try\<close> like the others: in \<open>env_success_rejected\<close> the thumbnail of the
  record is stored, the success publish raises, and the record ends with a failure
  notification.
\<close>

theorem publish_failure_counterexample:
  "lambda_handler env_success_rejected one_record []
     = (Inr \<lparr>statusCode = 200, body = Completed 1\<rparr>,
        [GetObject (JStr ''uploads'') (JStr ''source/photo.png''),
         PutObject (Some ''thumbs'') ''thumbnails/photo_thumb.jpg'' [9, 9] ''image/jpeg''
           [(''original-image'', JStr ''source/photo.png''),
            (''source-bucket'', JStr ''uploads''),
            (''generated-by'', JStr ''Lambda-ThumbnailGenerator'')],
         Publish (Some ''arn:aws:sns:topic'') (ThumbnailGenerated ''photo.png'')
           (SuccessMessage ''source/photo.png'' (JStr ''uploads'') 3 (Some ''PNG'')
              ''thumbnails/photo_thumb.jpg'' 2),
         Publish (Some ''arn:aws:sns:topic'') (ErrorProcessingImage (JStr ''source/photo.png''))
           (ErrorMessage (Raised ''ClientError'' ''invalid'') (JStr ''uploads'')
              (JStr ''source/photo.png''))])"
  using thumbnail_key_photo
  by (simp add: lambda_handler_cases one_record_def run_defs world_defs convert_for_jpeg_def
        THUMBNAIL_SIZE_def THUMBNAIL_QUALITY_def basename_def)

text \<open>
  Claim C5 as amended.  In \<^verbatim>\<open>docs/lambda-function.py\<close>: a failure of the success
  publish is caught at the record boundary, so the record whose thumbnail is stored is
  then reported by a failure notification, and once that notification is published the
  loop goes on with the remaining records, from which the response follows as in C3
  (first conjunct); a failure of the critical publish is swallowed: whatever error
  ended the invocation, \<open>lambda_handler\<close> returns the 500 response for that error
  after the publish attempt, whether SNS accepted the publish or not (second
  conjunct).  In \<^verbatim>\<open>lamcode.py\<close> no publish failure is swallowed: what a record raises,
  its success publish included, ends the loop (third conjunct), and when the error
  publish of the handler raises, \<open>lamcode_lambda_handler\<close> raises (fourth conjunct).
  (What happens in \<^verbatim>\<open>docs/lambda-function.py\<close> when the publish of the failure
  notification raises is the subject of C1.)
\<close>

theorem publish_failure_handling:
  "(generate_thumbnail env a_record s = (Inr t, s1) \<and>
    sns_publish env s1
      (Publish (SNS_TOPIC_ARN env) (success_subject t) (success_message t)) = Some e \<and>
    sns_publish env
      (s1 @ [Publish (SNS_TOPIC_ARN env) (success_subject t) (success_message t)])
      (Publish (SNS_TOPIC_ARN env) (ErrorProcessingImage (JStr (object_key t)))
         (ErrorMessage e (bucket_name t) (JStr (object_key t)))) = None
    \<longrightarrow>
    process_records env (a_record # records) s
      = process_records env records
          (s1 @ [Publish (SNS_TOPIC_ARN env) (success_subject t) (success_message t),
                 Publish (SNS_TOPIC_ARN env) (ErrorProcessingImage (JStr (object_key t)))
                   (ErrorMessage e (bucket_name t) (JStr (object_key t)))])) \<and>
   (get event ''Records'' (JList []) = Inl main_error \<or>
    (\<exists>Records. get event ''Records'' (JList []) = Inr Records \<and>
       (iter Records = Inl main_error \<or>
        (\<exists>records. iter Records = Inr records \<and>
           fst (process_records env records s) = Inl main_error)))
    \<longrightarrow>
    fst (lambda_handler env event s) = Inr \<lparr>statusCode = 500, body = Failed main_error\<rparr> \<and>
    last (snd (lambda_handler env event s))
      = Publish (SNS_TOPIC_ARN env) CriticalError (CriticalMessage main_error)) \<and>
   (lamcode_process_image env a_record s = (Inl e, s1) \<longrightarrow>
    lamcode_process_records env (a_record # records) s = (Inl e, s1)) \<and>
   (getitem event ''Records'' = Inr lamcode_Records \<and> iter lamcode_Records = Inr lamcode_records \<and>
    lamcode_process_records env lamcode_records s = (Inl e, s1) \<and>
    sns_publish env s1 (Publish (SNS_TOPIC_ARN env) ImageProcessingError (ErrorText e)) = Some e'
    \<longrightarrow>
    lamcode_lambda_handler env event s
      = (Inl e', s1 @ [Publish (SNS_TOPIC_ARN env) ImageProcessingError (ErrorText e)]))"
  using rejected_success_publish [of env a_record s t s1 e records]
    fatal_response [of event main_error env s]
    lamcode_process_records_Cons [of env a_record s e s1 records]
    lamcode_error_publish_raises [of event lamcode_Records lamcode_records env s e s1 e']
  by blast

text \<open>
  The sample worlds: the success publish rejected and the failure notification
  accepted; every publish rejected, for both handlers.
\<close>

theorem publish_failure_handling_witness:
  "generate_thumbnail env_success_rejected (s3_record ''uploads'' ''source/photo.png'') []
     = (Inr \<lparr>bucket_name = JStr ''uploads'', object_key = ''source/photo.png'',
              original_bytes = 3, original_format = Some ''PNG'', thumbnail_bytes = 2\<rparr>,
        [GetObject (JStr ''uploads'') (JStr ''source/photo.png''),
         PutObject (Some ''thumbs'') ''thumbnails/photo_thumb.jpg'' [9, 9] ''image/jpeg''
           [(''original-image'', JStr ''source/photo.png''),
            (''source-bucket'', JStr ''uploads''),
            (''generated-by'', JStr ''Lambda-ThumbnailGenerator'')]]) \<and>
   process_records env_success_rejected [s3_record ''uploads'' ''source/photo.png''] []
     = (Inr (),
        [GetObject (JStr ''uploads'') (JStr ''source/photo.png''),
         PutObject (Some ''thumbs'') ''thumbnails/photo_thumb.jpg'' [9, 9] ''image/jpeg''
           [(''original-image'', JStr ''source/photo.png''),
            (''source-bucket'', JStr ''uploads''),
            (''generated-by'', JStr ''Lambda-ThumbnailGenerator'')],
         Publish (Some ''arn:aws:sns:topic'') (ThumbnailGenerated ''photo.png'')
           (SuccessMessage ''source/photo.png'' (JStr ''uploads'') 3 (Some ''PNG'')
              ''thumbnails/photo_thumb.jpg'' 2),
         Publish (Some ''arn:aws:sns:topic'') (ErrorProcessingImage (JStr ''source/photo.png''))
           (ErrorMessage (Raised ''ClientError'' ''invalid'') (JStr ''uploads'')
              (JStr ''source/photo.png''))]) \<and>
   fst (process_records env_sns_down
          [s3_record ''uploads'' ''missing.png'', s3_record ''uploads'' ''source/photo.png''] [])
     = Inl (Raised ''ClientError'' ''topic not found'') \<and>
   fst (lambda_handler env_sns_down two_records [])
     = Inr \<lparr>statusCode = 500, body = Failed (Raised ''ClientError'' ''topic not found'')\<rparr> \<and>
   last (snd (lambda_handler env_sns_down two_records []))
     = Publish (Some ''arn:aws:sns:topic'') CriticalError
         (CriticalMessage (Raised ''ClientError'' ''topic not found'')) \<and>
   lamcode_process_records env_sns_down [s3_record ''uploads'' ''source/photo.png''] []
     = (Inl (Raised ''ClientError'' ''topic not found''),
        [GetObject (JStr ''uploads'') (JStr ''source/photo.png''),
         PutObject (Some ''thumbs'') ''thumbnails/source/photo_thumb.jpg'' [9, 9] ''image/jpeg'' [],
         Publish (Some ''arn:aws:sns:topic'') GeneratedSuccessfully
           (CompleteMessage ''source/photo.png'' (JStr ''uploads'')
              ''thumbnails/source/photo_thumb.jpg'')]) \<and>
   lamcode_lambda_handler env_sns_down one_record []
     = (Inl (Raised ''ClientError'' ''topic not found''),
        [GetObject (JStr ''uploads'') (JStr ''source/photo.png''),
         PutObject (Some ''thumbs'') ''thumbnails/source/photo_thumb.jpg'' [9, 9] ''image/jpeg'' [],
         Publish (Some ''arn:aws:sns:topic'') GeneratedSuccessfully
           (CompleteMessage ''source/photo.png'' (JStr ''uploads'')
              ''thumbnails/source/photo_thumb.jpg''),
         Publish (Some ''arn:aws:sns:topic'') ImageProcessingError
           (ErrorText (Raised ''ClientError'' ''topic not found''))])"
proof -
  let ?r = "s3_record ''uploads'' ''source/photo.png''"
  let ?rs = "[s3_record ''uploads'' ''missing.png'', s3_record ''uploads'' ''source/photo.png'']"
  let ?t = "\<lparr>bucket_name = JStr ''uploads'', object_key = ''source/photo.png'',
              original_bytes = 3, original_format = Some ''PNG'', thumbnail_bytes = 2\<rparr>"
  let ?s1 = "[GetObject (JStr ''uploads'') (JStr ''source/photo.png''),
         PutObject (Some ''thumbs'') ''thumbnails/photo_thumb.jpg'' [9, 9] ''image/jpeg''
           [(''original-image'', JStr ''source/photo.png''),
            (''source-bucket'', JStr ''uploads''),
            (''generated-by'', JStr ''Lambda-ThumbnailGenerator'')]]"
  let ?e = "Raised ''ClientError'' ''invalid''"
  let ?d = "Raised ''ClientError'' ''topic not found''"
  let ?l1 = "[GetObject (JStr ''uploads'') (JStr ''source/photo.png''),
         PutObject (Some ''thumbs'') ''thumbnails/source/photo_thumb.jpg'' [9, 9] ''image/jpeg'' [],
         Publish (Some ''arn:aws:sns:topic'') GeneratedSuccessfully
           (CompleteMessage ''source/photo.png'' (JStr ''uploads'')
              ''thumbnails/source/photo_thumb.jpg'')]"
  have p: "sns_publish env_success_rejected ?s1
      (Publish (SNS_TOPIC_ARN env_success_rejected) (success_subject ?t) (success_message ?t))
      = Some ?e"
    by (simp add: world_defs success_subject_def success_message_def)
  have q: "sns_publish env_success_rejected
      (?s1 @ [Publish (SNS_TOPIC_ARN env_success_rejected) (success_subject ?t) (success_message ?t)])
      (Publish (SNS_TOPIC_ARN env_success_rejected) (ErrorProcessingImage (JStr (object_key ?t)))
         (ErrorMessage ?e (bucket_name ?t) (JStr (object_key ?t)))) = None"
    by (simp add: world_defs)
  have A: "process_records env_success_rejected [?r] []
      = process_records env_success_rejected []
          (?s1 @ [Publish (SNS_TOPIC_ARN env_success_rejected) (success_subject ?t) (success_message ?t),
                 Publish (SNS_TOPIC_ARN env_success_rejected) (ErrorProcessingImage (JStr (object_key ?t)))
                   (ErrorMessage ?e (bucket_name ?t) (JStr (object_key ?t)))])"
    using publish_failure_handling [where env = env_success_rejected and a_record = ?r
        and s = "[]" and t = ?t and ?s1.0 = ?s1 and e = ?e and records = "[]"]
      generate_thumbnail_photo p q
    by blast
  have g: "get two_records ''Records'' (JList []) = Inr (JList ?rs)"
    by (simp add: two_records_def)
  have i: "iter (JList ?rs) = Inr ?rs" by simp
  have B: "fst (lambda_handler env_sns_down two_records [])
             = Inr \<lparr>statusCode = 500, body = Failed ?d\<rparr> \<and>
           last (snd (lambda_handler env_sns_down two_records []))
             = Publish (SNS_TOPIC_ARN env_sns_down) CriticalError (CriticalMessage ?d)"
    using publish_failure_handling [where env = env_sns_down and event = two_records
        and s = "[]" and main_error = ?d]
      g i two_records_sns_down
    by blast
  have C1: "lamcode_process_records env_sns_down [?r] [] = (Inl ?d, ?l1)"
    using publish_failure_handling [where env = env_sns_down and a_record = ?r
        and s = "[]" and e = ?d and ?s1.0 = ?l1 and records = "[]"]
      lamcode_photo_sns_down
    by blast
  have g': "getitem one_record ''Records'' = Inr (JList [?r])"
    by (simp add: one_record_def)
  have i': "iter (JList [?r]) = Inr [?r]" by simp
  have pe: "sns_publish env_sns_down ?l1
      (Publish (SNS_TOPIC_ARN env_sns_down) ImageProcessingError (ErrorText ?d)) = Some ?d"
    by (simp add: world_defs)
  have C2: "lamcode_lambda_handler env_sns_down one_record []
      = (Inl ?d, ?l1 @ [Publish (SNS_TOPIC_ARN env_sns_down) ImageProcessingError (ErrorText ?d)])"
    using publish_failure_handling [where env = env_sns_down and event = one_record
        and s = "[]" and e = ?d and ?s1.0 = ?l1 and e' = ?d
        and lamcode_Records = "JList [?r]" and lamcode_records = "[?r]"]
      g' i' C1 pe
    by blast
  show ?thesis
    using generate_thumbnail_photo A B C1 C2 two_records_sns_down thumbnail_key_photo
    by (simp add: world_defs success_subject_def success_message_def returnE_def basename_def)
qed

subsection \<open>C6: images with an alpha channel\<close>

text \<open>
  Claim C6: an image with an alpha channel or a palette is composited onto an opaque
  white background of the same size, so that its transparent pixels come out white.
  Line 72 passes the alpha band as mask only when the mode is \<open>RGBA\<close>; an \<open>LA\<close> image
  is pasted without mask.  The transparent black pixel of \<open>transparent_LA\<close> comes out
  black, while the same pixel of \<open>transparent_RGBA\<close> comes out white.
\<close>

theorem LA_transparent_pixel_not_white:
  "convert_for_jpeg transparent_LA
     = \<lparr>im_mode = ''RGB'', im_size = (1, 1), im_format = None, im_pixels = [(0, 0, 0, 255)]\<rparr> \<and>
   convert_for_jpeg transparent_RGBA
     = \<lparr>im_mode = ''RGB'', im_size = (1, 1), im_format = None,
        im_pixels = [(255, 255, 255, 255)]\<rparr>"
  by (simp add: convert_for_jpeg_def transparent_LA_def transparent_RGBA_def Image_new_def
        paste_def split_last_def BLEND8_def DIV255_def)

subsection \<open>C7: the size of the thumbnail\<close>



subsection \<open>C8: an empty batch\<close>

text \<open>
  Claim C8 as stated: for an event whose \<^verbatim>\<open>Records\<close> list is empty, the handler makes
  no fetch, no upload and no publish and returns status 200 with
  \<^verbatim>\<open>records_processed\<close> equal to 0.  The handler of \<^verbatim>\<open>lamcode.py\<close>, which the claim
  cites too, returns status 200 with a fixed string as body: there is no
  \<^verbatim>\<open>records_processed\<close> in it.
\<close>

theorem lamcode_empty_batch_counterexample:
  "lamcode_lambda_handler env_ok (JDict [(''Records'', JList [])]) []
     = (Inr \<lparr>statusCode = 200, body = Generated\<rparr>, []) \<and>
   body \<lparr>statusCode = 200, body = Generated\<rparr> \<noteq> Completed 0"
  by (simp add: lamcode_handler_cases returnE_def)

text \<open>
  Claim C8 as amended: for an event whose \<^verbatim>\<open>Records\<close> list is empty, both handlers
  make no fetch, no upload and no publish (the list of calls is unchanged) and return
  status 200; the body of \<^verbatim>\<open>docs/lambda-function.py\<close> carries \<^verbatim>\<open>records_processed\<close>
  equal to 0, the body of \<^verbatim>\<open>lamcode.py\<close> is the fixed string
  \<^verbatim>\<open>Thumbnails generated successfully!\<close> without a count.
\<close>

theorem empty_records_no_effect:
  "map_of kvs ''Records'' = Some (JList []) \<Longrightarrow>
   lambda_handler env (JDict kvs) s = (Inr \<lparr>statusCode = 200, body = Completed 0\<rparr>, s) \<and>
   lamcode_lambda_handler env (JDict kvs) s = (Inr \<lparr>statusCode = 200, body = Generated\<rparr>, s)"
  by (simp add: lambda_handler_cases lamcode_handler_cases returnE_def)

theorem empty_records_no_effect_witness:
  "map_of [(''Records'', JList [])] ''Records'' = Some (JList []) \<and>
   lambda_handler env_ok (JDict [(''Records'', JList [])]) []
     = (Inr \<lparr>statusCode = 200, body = Completed 0\<rparr>, []) \<and>
   lamcode_lambda_handler env_ok (JDict [(''Records'', JList [])]) []
     = (Inr \<lparr>statusCode = 200, body = Generated\<rparr>, [])"
proof -
  have h: "map_of [(''Records'', JList [])] ''Records'' = Some (JList [])" by simp
  show ?thesis using h empty_records_no_effect [OF h, of env_ok "[]"] by simp
qed

subsection \<open>C9: a key that is only an extension\<close>

text \<open>
  Claim C9 as stated: for the key \<^verbatim>\<open>.png\<close> the base name is empty and the destination
  key is \<^verbatim>\<open>thumbnails/_thumb.jpg\<close>.  \<^verbatim>\<open>os.path.splitext\<close> counts leading dots of the
  file name as part of the root, so nothing is stripped.
\<close>

theorem bare_extension_counterexample:
  "thumbnail_key ''.png'' = ''thumbnails/.png_thumb.jpg'' \<and>
   thumbnail_key ''.png'' \<noteq> ''thumbnails/_thumb.jpg''"
  using splitext_leading_dot [of "''png''"]
  by (simp add: thumbnail_key_def basename_no_sep)

text \<open>
  Claim C9 as amended: for a key that is a dot followed by characters other than the dot
  and the separator, \<^verbatim>\<open>splitext\<close> strips nothing, the base name is the whole key, and
  the destination key is \<^verbatim>\<open>thumbnails/{key}_thumb.jpg\<close>, in both handlers; \<^verbatim>\<open>.png\<close>
  maps to \<^verbatim>\<open>thumbnails/.png_thumb.jpg\<close>.
\<close>

theorem bare_extension_kept:
  "CHR ''.'' \<notin> set ext \<Longrightarrow> CHR ''/'' \<notin> set ext \<Longrightarrow>
   splitext (''.'' @ ext) = (''.'' @ ext, []) \<and>
   thumbnail_key (''.'' @ ext) = ''thumbnails/.'' @ ext @ ''_thumb.jpg'' \<and>
   lamcode_thumbnail_key (''.'' @ ext) = ''thumbnails/.'' @ ext @ ''_thumb.jpg''"
  using splitext_leading_dot [of ext]
  by (simp add: thumbnail_key_def lamcode_thumbnail_key_def basename_no_sep)

theorem bare_extension_kept_witness:
  "CHR ''.'' \<notin> set ''png'' \<and> CHR ''/'' \<notin> set ''png'' \<and>
   splitext ''.png'' = (''.png'', []) \<and>
   thumbnail_key ''.png'' = ''thumbnails/.png_thumb.jpg'' \<and>
   lamcode_thumbnail_key ''.png'' = ''thumbnails/.png_thumb.jpg''"
proof -
  have a: "CHR ''.'' \<notin> set ''png''" by simp
  have b: "CHR ''/'' \<notin> set ''png''" by simp
  show ?thesis using a b bare_extension_kept [OF a b] by simp
qed

subsection \<open>C10: the handler always returns\<close>

text \<open>
  Claim C10: for every event, every world and every history of calls, the
  \<open>lambda_handler\<close> of \<^verbatim>\<open>docs/lambda-function.py\<close> returns a response and raises
  nothing; the status is 200 with the success body or 500 with the error body, also
  when the publish of the critical message fails.
\<close>

theorem lambda_handler_returns_200_or_500:
  "\<exists>r. fst (lambda_handler env event s) = Inr r \<and>
       (statusCode r = 200 \<and> (\<exists>n. body r = Completed n) \<or>
        statusCode r = 500 \<and> (\<exists>e. body r = Failed e))"
  by (auto simp: lambda_handler_cases split: sum.splits prod.splits)

theorem lambda_handler_returns_200_or_500_witness:
  "sns_publish env_sns_down []
     (Publish (SNS_TOPIC_ARN env_sns_down) CriticalError
        (CriticalMessage (AttributeError ''NoneType''))) \<noteq> None \<and>
   (\<exists>r. fst (lambda_handler env_sns_down JNull []) = Inr r \<and>
       (statusCode r = 200 \<and> (\<exists>n. body r = Completed n) \<or>
        statusCode r = 500 \<and> (\<exists>e. body r = Failed e)))"
  using lambda_handler_returns_200_or_500 [of env_sns_down JNull "[]"]
  by (simp add: env_sns_down_def)

section \<open>Further properties of the two handlers\<close>

subsection \<open>X1: failures that are notified do not stop the batch\<close>

lemma failures_notified_loop:
  assumes pub: "\<forall>h key m. sns_publish env h
                  (Publish (SNS_TOPIC_ARN env) (ErrorProcessingImage key) m) = None"
    and ctx: "\<forall>r \<in> set records.
                \<exists>b k. get_path r [''s3'', ''bucket'', ''name''] (JStr ''Unknown'') = Inr b \<and>
                      get_path r [''s3'', ''object'', ''key''] (JStr ''Unknown'') = Inr k"
  shows "fst (process_records env records s) = Inr ()"
  using ctx
proof (induction records arbitrary: s)
  case Nil
  then show ?case by (simp add: returnE_def)
next
  case (Cons r rs)
  obtain x s' where pi: "process_image env r s = (x, s')"
    by (cases "process_image env r s")
  from Cons.prems obtain b k where
    b: "get_path r [''s3'', ''bucket'', ''name''] (JStr ''Unknown'') = Inr b" and
    k: "get_path r [''s3'', ''object'', ''key''] (JStr ''Unknown'') = Inr k"
    by auto
  have rest: "\<And>s. fst (process_records env rs s) = Inr ()"
    using Cons.IH Cons.prems by simp
  show ?case
  proof (cases x)
    case (Inr u)
    then show ?thesis using pi rest by (subst process_records_Cons) simp
  next
    case (Inl e)
    have "notify_record_error env r e s'
            = (Inr (), s' @ [Publish (SNS_TOPIC_ARN env) (ErrorProcessingImage k)
                               (ErrorMessage e b k)])"
      using pub by (intro notify_record_error_published [OF b k]) simp
    then show ?thesis using pi Inl rest by (subst process_records_Cons) simp
  qed
qed

text \<open>
  X1: when SNS accepts every failure notification and the \<^verbatim>\<open>.get\<close> chains of the
  error message can read every record (each record is a dictionary whose \<^verbatim>\<open>s3\<close>,
  \<^verbatim>\<open>bucket\<close> and \<^verbatim>\<open>object\<close> entries, where present, are dictionaries), the loop of
  \<open>lambda_handler\<close> completes whatever fails inside the records, and the response is
  200 with the number of records.
\<close>

theorem batch_goes_on_when_failures_are_notified:
  assumes "\<forall>h key m. sns_publish env h
             (Publish (SNS_TOPIC_ARN env) (ErrorProcessingImage key) m) = None"
    and "\<forall>r \<in> set records.
           \<exists>b k. get_path r [''s3'', ''bucket'', ''name''] (JStr ''Unknown'') = Inr b \<and>
                 get_path r [''s3'', ''object'', ''key''] (JStr ''Unknown'') = Inr k"
    and "map_of kvs ''Records'' = Some (JList records)"
  shows "fst (lambda_handler env (JDict kvs) s)
           = Inr \<lparr>statusCode = 200, body = Completed (length records)\<rparr>"
  using failures_notified_loop [OF assms(1,2), of s] assms(3)
  by (cases "process_records env records s") (simp add: lambda_handler_cases)

theorem batch_goes_on_when_failures_are_notified_witness:
  "(\<forall>h key m. sns_publish env_ok h
       (Publish (SNS_TOPIC_ARN env_ok) (ErrorProcessingImage key) m) = None) \<and>
   (\<forall>r \<in> set [s3_record ''uploads'' ''missing.png'', s3_record ''uploads'' ''source/photo.png''].
       \<exists>b k. get_path r [''s3'', ''bucket'', ''name''] (JStr ''Unknown'') = Inr b \<and>
             get_path r [''s3'', ''object'', ''key''] (JStr ''Unknown'') = Inr k) \<and>
   fst (process_image env_ok (s3_record ''uploads'' ''missing.png'') [])
     = Inl (Raised ''NoSuchKey'' ''not found'') \<and>
   fst (lambda_handler env_ok two_records [])
     = Inr \<lparr>statusCode = 200, body = Completed 2\<rparr>"
proof -
  let ?rs = "[s3_record ''uploads'' ''missing.png'', s3_record ''uploads'' ''source/photo.png'']"
  have a: "\<forall>h key m. sns_publish env_ok h
       (Publish (SNS_TOPIC_ARN env_ok) (ErrorProcessingImage key) m) = None"
    by (simp add: env_ok_def)
  have b: "\<forall>r \<in> set ?rs.
       \<exists>b k. get_path r [''s3'', ''bucket'', ''name''] (JStr ''Unknown'') = Inr b \<and>
             get_path r [''s3'', ''object'', ''key''] (JStr ''Unknown'') = Inr k"
    by (simp add: s3_record_def)
  have c: "map_of [(''Records'', JList ?rs)] ''Records'' = Some (JList ?rs)" by simp
  show ?thesis
    using a b missing_object_fails
      batch_goes_on_when_failures_are_notified [OF a b c, of "[]"]
    by (simp add: two_records_def)
qed

subsection \<open>X2: \<^verbatim>\<open>lamcode.py\<close> stops at the first failure\<close>

text \<open>
  X2: in \<^verbatim>\<open>lamcode.py\<close> the first record that fails ends the batch: the second record
  of \<open>two_records\<close> is never fetched and the response is 500; when the error publish
  raises as well, the handler itself raises.
\<close>

theorem lamcode_first_failure_ends_batch:
  "lamcode_lambda_handler env_ok two_records []
     = (Inr \<lparr>statusCode = 500, body = FailedText (Raised ''NoSuchKey'' ''not found'')\<rparr>,
        [GetObject (JStr ''uploads'') (JStr ''missing.png''),
         Publish (Some ''arn:aws:sns:topic'') ImageProcessingError
           (ErrorText (Raised ''NoSuchKey'' ''not found''))]) \<and>
   lamcode_lambda_handler env_sns_down two_records []
     = (Inl (Raised ''ClientError'' ''topic not found''),
        [GetObject (JStr ''uploads'') (JStr ''missing.png''),
         Publish (Some ''arn:aws:sns:topic'') ImageProcessingError
           (ErrorText (Raised ''NoSuchKey'' ''not found''))])"
  by (simp add: lamcode_handler_cases two_records_def lamcode_run_defs world_defs)

subsection \<open>X3: compositing of \<open>RGBA\<close> and palette images\<close>

lemma DIV255_scale:
  assumes "x \<le> 255"
  shows "DIV255 (x * 255) = x"
proof (cases "x \<le> 128")
  case True
  have "(x * 255 + 128) div 256 = x"
    using True by (intro Euclidean_Rings.div_nat_eqI) auto
  then have "(x * 255 + 128) div 256 + (x * 255 + 128) = x * 256 + 128" by simp
  then show ?thesis by (simp add: DIV255_def Let_def)
next
  case False
  then obtain y where y: "x = Suc y" by (cases x) auto
  have "(x * 255 + 128) div 256 = y"
    using False assms unfolding y by (intro Euclidean_Rings.div_nat_eqI) auto
  then have "(x * 255 + 128) div 256 + (x * 255 + 128) = x * 256 + 127" unfolding y by simp
  then show ?thesis by (simp add: DIV255_def Let_def)
qed

lemma BLEND8_opaque: "x \<le> 255 \<Longrightarrow> BLEND8 255 y x = x"
  by (simp add: BLEND8_def DIV255_scale)

lemma BLEND8_transparent_white: "BLEND8 0 255 x = 255"
  by (simp add: BLEND8_def DIV255_def)

lemma convert_for_jpeg_masked:
  assumes "im_mode img = ''RGBA'' \<or> im_mode img = ''P''"
  shows "convert_for_jpeg img =
           \<lparr>im_mode = ''RGB'', im_size = im_size img, im_format = None,
            im_pixels = map2 (\<lambda>out (inp, m). paste_pixel out inp (Some m))
                          (replicate (fst (im_size img) * snd (im_size img)) (255, 255, 255, 255))
                          (zip (im_pixels img) (map (\<lambda>(r, g, b, a). a) (im_pixels img)))\<rparr>"
  using assms
  by (auto simp: convert_for_jpeg_def Image_new_def paste_def split_last_def convert_RGBA_def)

lemma convert_for_jpeg_pixel:
  assumes "im_mode img = ''RGBA'' \<or> im_mode img = ''P''" and "well_formed img"
    and "i < length (im_pixels img)" and "im_pixels img ! i = (r, g, b, a)"
  shows "im_pixels (convert_for_jpeg img) ! i = (BLEND8 a 255 r, BLEND8 a 255 g, BLEND8 a 255 b, 255)"
  using assms(2-4)
  by (simp add: convert_for_jpeg_masked [OF assms(1)] well_formed_def)

text \<open>
  X3: for an image of mode \<open>RGBA\<close> or \<open>P\<close> the normalisation step yields an \<open>RGB\<close>
  image of the same size in which a fully transparent pixel is white and a fully
  opaque pixel keeps its colour.
\<close>

theorem alpha_composited_on_white:
  "(im_mode img = ''RGBA'' \<or> im_mode img = ''P'') \<and> well_formed img \<and>
     i < length (im_pixels img) \<longrightarrow>
     im_mode (convert_for_jpeg img) = ''RGB'' \<and>
     im_size (convert_for_jpeg img) = im_size img \<and>
     length (im_pixels (convert_for_jpeg img)) = length (im_pixels img) \<and>
     (im_pixels img ! i = (r, g, b, 0) \<longrightarrow>
        im_pixels (convert_for_jpeg img) ! i = (255, 255, 255, 255)) \<and>
     (im_pixels img ! i = (r, g, b, 255) \<and> r \<le> 255 \<and> g \<le> 255 \<and> b \<le> 255 \<longrightarrow>
        im_pixels (convert_for_jpeg img) ! i = (r, g, b, 255))"
proof (intro impI, elim conjE)
  assume m: "im_mode img = ''RGBA'' \<or> im_mode img = ''P''" and w: "well_formed img"
    and i: "i < length (im_pixels img)"
  have 1: "im_mode (convert_for_jpeg img) = ''RGB''" "im_size (convert_for_jpeg img) = im_size img"
    by (simp_all add: convert_for_jpeg_masked [OF m])
  have 2: "length (im_pixels (convert_for_jpeg img)) = length (im_pixels img)"
    using w by (simp add: convert_for_jpeg_masked [OF m] well_formed_def)
  have 3: "im_pixels img ! i = (r, g, b, 0) \<longrightarrow>
        im_pixels (convert_for_jpeg img) ! i = (255, 255, 255, 255)"
    using convert_for_jpeg_pixel [OF m w i, of r g b 0] by (simp add: BLEND8_transparent_white)
  have 4: "im_pixels img ! i = (r, g, b, 255) \<and> r \<le> 255 \<and> g \<le> 255 \<and> b \<le> 255 \<longrightarrow>
        im_pixels (convert_for_jpeg img) ! i = (r, g, b, 255)"
    using convert_for_jpeg_pixel [OF m w i, of r g b 255] by (simp add: BLEND8_opaque)
  show "im_mode (convert_for_jpeg img) = ''RGB'' \<and>
     im_size (convert_for_jpeg img) = im_size img \<and>
     length (im_pixels (convert_for_jpeg img)) = length (im_pixels img) \<and>
     (im_pixels img ! i = (r, g, b, 0) \<longrightarrow>
        im_pixels (convert_for_jpeg img) ! i = (255, 255, 255, 255)) \<and>
     (im_pixels img ! i = (r, g, b, 255) \<and> r \<le> 255 \<and> g \<le> 255 \<and> b \<le> 255 \<longrightarrow>
        im_pixels (convert_for_jpeg img) ! i = (r, g, b, 255))"
    using 1 2 3 4 by blast
qed

theorem alpha_composited_on_white_witness:
  "(im_mode transparent_RGBA = ''RGBA'' \<or> im_mode transparent_RGBA = ''P'') \<and>
   well_formed transparent_RGBA \<and> 0 < length (im_pixels transparent_RGBA) \<and>
   im_pixels transparent_RGBA ! 0 = (0, 0, 0, 0) \<and>
   im_mode (convert_for_jpeg transparent_RGBA) = ''RGB'' \<and>
   im_pixels (convert_for_jpeg transparent_RGBA) ! 0 = (255, 255, 255, 255)"
proof -
  have h: "(im_mode transparent_RGBA = ''RGBA'' \<or> im_mode transparent_RGBA = ''P'') \<and>
     well_formed transparent_RGBA \<and> 0 < length (im_pixels transparent_RGBA)"
    by (simp add: transparent_RGBA_def well_formed_def)
  have p: "im_pixels transparent_RGBA ! 0 = (0, 0, 0, 0)"
    by (simp add: transparent_RGBA_def)
  show ?thesis
    using h p alpha_composited_on_white [of transparent_RGBA 0 0 0 0] by blast
qed

subsection \<open>X4: modes without alpha\<close>

text \<open>
  X4: an image whose mode is none of \<open>RGBA\<close>, \<open>LA\<close>, \<open>P\<close> passes through the
  normalisation step unchanged.
\<close>

theorem opaque_modes_pass_through:
  "im_mode img \<notin> {''RGBA'', ''LA'', ''P''} \<Longrightarrow> convert_for_jpeg img = img"
  by (simp add: convert_for_jpeg_def)

theorem opaque_modes_pass_through_witness:
  "im_mode sample_image \<notin> {''RGBA'', ''LA'', ''P''} \<and> convert_for_jpeg sample_image = sample_image"
proof -
  have h: "im_mode sample_image \<notin> {''RGBA'', ''LA'', ''P''}" by (simp add: sample_image_def)
  show ?thesis using h opaque_modes_pass_through [OF h] by simp
qed

subsection \<open>X5: keys with an empty base name\<close>

lemma skip_leading_dots_pos: "skip_leading_dots p i j \<Longrightarrow> 0 < j"
  by (subst (asm) skip_leading_dots.simps) (auto split: if_splits)

lemma fst_splitext_empty: "fst (splitext n) = [] \<longleftrightarrow> n = []"
proof
  assume e: "fst (splitext n) = []"
  show "n = []"
  proof (rule ccontr)
    assume ne: "n \<noteq> []"
    then have split: "rfind (CHR ''/'') n < rfind (CHR ''.'') n \<and>
        skip_leading_dots n (nat (rfind (CHR ''/'') n + 1)) (nat (rfind (CHR ''.'') n))"
      using e by (auto simp: splitext_def Let_def split: if_splits)
    then have "0 < nat (rfind (CHR ''.'') n)"
      using skip_leading_dots_pos by blast
    then have "take (nat (rfind (CHR ''.'') n)) n \<noteq> []"
      using ne by simp
    then show False
      using e split by (simp add: splitext_def Let_def)
  qed
next
  assume "n = []"
  then show "fst (splitext n) = []" by (simp add: splitext_def)
qed

lemma basename_empty: "basename k = [] \<longleftrightarrow> k = [] \<or> last k = CHR ''/''"
proof (cases "CHR ''/'' \<in> set k")
  case False
  then have "k \<noteq> [] \<Longrightarrow> last k \<noteq> CHR ''/''"
    using last_in_set by metis
  then show ?thesis using False by (auto simp: basename_no_sep)
next
  case True
  then obtain d n where k: "k = d @ CHR ''/'' # n" and n: "CHR ''/'' \<notin> set n"
    using last_sep_split by blast
  have "n \<noteq> [] \<Longrightarrow> last n \<noteq> CHR ''/''"
    using n last_in_set by metis
  then show ?thesis
    unfolding k using n by (auto simp: basename_dir)
qed

text \<open>
  X5: the destination key of \<^verbatim>\<open>docs/lambda-function.py\<close> has an empty base name,
  \<^verbatim>\<open>thumbnails/_thumb.jpg\<close>, exactly for the empty key and for keys that end in the
  separator.
\<close>

theorem empty_base_name:
  "thumbnail_key k = ''thumbnails/_thumb.jpg'' \<longleftrightarrow> k = [] \<or> last k = CHR ''/''"
proof -
  have "thumbnail_key k = ''thumbnails/_thumb.jpg'' \<longleftrightarrow> fst (splitext (basename k)) = []"
    by (simp add: thumbnail_key_base)
  then show ?thesis
    by (simp add: fst_splitext_empty basename_empty)
qed

theorem empty_base_name_witness:
  "thumbnail_key ''incoming/'' = ''thumbnails/_thumb.jpg'' \<and> last ''incoming/'' = CHR ''/'' \<and>
   thumbnail_key ''.png'' \<noteq> ''thumbnails/_thumb.jpg''"
  using empty_base_name [of "''incoming/''"] empty_base_name [of "''.png''"]
  by simp

end
